theory Spec2Isabelle
  imports Main "HOL-Library.Word" "HOL-Library.Sublist"
begin

unbundle bit_operations_syntax

section \<open>JavaScript strings and numbers\<close>

text \<open>
  A JavaScript string is a sequence of UTF-16 code units; \<open>charCodeAt\<close>, \<open>length\<close>,
  \<open>substring\<close> and the regular expression \<open>\s\<close> all work on code units. String
  literals of the source are written \<open>js ''...''\<close>.
\<close>

type_synonym jsstring = "16 word list"

definition js :: "string \<Rightarrow> jsstring" where
  "js s = map (\<lambda>c. of_nat (of_char c)) s"

text \<open>\<open>Number.prototype.toString(16)\<close> and the decimal rendering of a template literal,
  for a non-negative integer.\<close>

definition digit_char :: "nat \<Rightarrow> 16 word" where
  "digit_char d = (if d < 10 then of_nat (48 + d) else of_nat (87 + d))"

fun toString_radix :: "nat \<Rightarrow> nat \<Rightarrow> jsstring" where
  "toString_radix r n =
     (if r < 2 \<or> n < r then [digit_char n]
      else toString_radix r (n div r) @ [digit_char (n mod r)])"

definition toString16 :: "nat \<Rightarrow> jsstring" where
  "toString16 n = toString_radix 16 n"

definition toString10 :: "nat \<Rightarrow> jsstring" where
  "toString10 n = toString_radix 10 n"

section \<open>routes.ts: generateHash\<close>

text \<open>
  \<^verbatim>\<open>
  let hash = 0;
  for (let i = 0; i < content.length; i++) {
    const char = content.charCodeAt(i);
    hash = ((hash << 5) - hash) + char;
    hash = hash & hash; // Convert to 32-bit integer
  }
  return Math.abs(hash).toString(16);
  \<close>
  \<open>hash\<close> is a JavaScript Number. \<open><<\<close> and \<open>&\<close> first convert their operands with
  ToInt32 and return an int32; \<open>-\<close> and \<open>+\<close> are Number arithmetic, exact here since every
  intermediate value is an integer of magnitude below \<open>2^53\<close>. The model therefore
  computes on \<open>int\<close> with the conversions written out.
\<close>

definition ToInt32 :: "int \<Rightarrow> int" where
  "ToInt32 x = (x + 2 ^ 31) mod 2 ^ 32 - 2 ^ 31"

definition js_shl :: "int \<Rightarrow> nat \<Rightarrow> int" where
  "js_shl x k = ToInt32 (ToInt32 x * 2 ^ (k mod 32))"

definition js_and_self :: "int \<Rightarrow> int" where
  "js_and_self x = ToInt32 x"

definition hash_step :: "int \<Rightarrow> 16 word \<Rightarrow> int" where
  "hash_step hash c = js_and_self ((js_shl hash 5 - hash) + uint c)"

definition hash_loop :: "jsstring \<Rightarrow> int" where
  "hash_loop content = foldl hash_step 0 content"

definition generateHash :: "jsstring \<Rightarrow> jsstring" where
  "generateHash content = toString16 (nat \<bar>hash_loop content\<bar>)"

text \<open>The accumulator as the claim words it: a 32-bit two's-complement register updated by
  \<open>((hash << 5) - hash) + charCode\<close>, all in 32-bit arithmetic.\<close>

definition acc32_step :: "32 word \<Rightarrow> 16 word \<Rightarrow> 32 word" where
  "acc32_step h c = (push_bit 5 h - h) + ucast c"

definition acc32 :: "jsstring \<Rightarrow> 32 word" where
  "acc32 content = foldl acc32_step 0 content"


text \<open>Reading a string of digits back, to say what "base-16 representation" means.\<close>

definition digit_val :: "16 word \<Rightarrow> nat" where
  "digit_val c = (if unat c < 58 then unat c - 48 else unat c - 87)"

definition parse_radix :: "nat \<Rightarrow> jsstring \<Rightarrow> nat" where
  "parse_radix r s = foldl (\<lambda>a c. a * r + digit_val c) 0 s"

section \<open>routes.ts: the word count \<open>summaryText.split(/\s+/).length\<close>\<close>

text \<open>
  \<open>\s\<close> matches the WhiteSpace and LineTerminator code points of ECMAScript: TAB, LF, VT,
  FF, CR, SP, NBSP, U+1680, U+2000..U+200A, U+2028, U+2029, U+202F, U+205F, U+3000 and
  U+FEFF.
\<close>

definition is_js_whitespace :: "16 word \<Rightarrow> bool" where
  "is_js_whitespace c =
     ((0x09 \<le> c \<and> c \<le> 0x0D) \<or> c = 0x20 \<or> c = 0xA0 \<or> c = 0x1680
      \<or> (0x2000 \<le> c \<and> c \<le> 0x200A) \<or> c = 0x2028 \<or> c = 0x2029 \<or> c = 0x202F
      \<or> c = 0x205F \<or> c = 0x3000 \<or> c = 0xFEFF)"

text \<open>
  \<open>String.prototype.split\<close> with the separator \<open>/\s+/\<close>: the string is cut at every
  maximal run of whitespace; the piece before the first run and the piece after the last
  one are kept even when empty, and the empty string gives the one-element array
  \<open>[""]\<close>. \<open>cur\<close> holds the piece being read, reversed.
\<close>

function split_from :: "jsstring \<Rightarrow> jsstring \<Rightarrow> jsstring list" where
  "split_from cur [] = [rev cur]"
| "split_from cur (c # cs) =
     (if is_js_whitespace c
      then rev cur # split_from [] (dropWhile is_js_whitespace cs)
      else split_from (c # cur) cs)"
  by pat_completeness auto
termination
  by (relation "measure (\<lambda>(cur, s). length s)")
     (auto simp: length_dropWhile_le less_Suc_eq_le)

definition split_ws :: "jsstring \<Rightarrow> jsstring list" where
  "split_ws s = split_from [] s"

section \<open>Thrown values, HTTP outcomes and effects\<close>

text \<open>
  A value thrown in JavaScript is either an \<open>Error\<close> object, with a \<open>name\<close> and a
  \<open>message\<close>, or something else (of which only \<open>String(error)\<close> is ever read).
\<close>

datatype thrown = ErrorObj jsstring jsstring | NonError jsstring

definition Error :: "jsstring \<Rightarrow> thrown" where
  "Error msg = ErrorObj (js ''Error'') msg"

definition AbortError :: thrown where
  "AbortError = ErrorObj (js ''AbortError'') (js ''This operation was aborted'')"

definition is_AbortError :: "thrown \<Rightarrow> bool" where
  "is_AbortError error =
     (case error of ErrorObj name _ \<Rightarrow> name = js ''AbortError'' | NonError _ \<Rightarrow> False)"

text \<open>What one \<open>fetch\<close> of a JSON service comes to: the promise (or the reading of the body)
  rejects, the response has \<open>ok = false\<close> (with its status and body text), or the response
  is \<open>ok\<close> and carries a parsed body.\<close>

datatype 'a http_outcome = FetchRejects thrown | HttpError nat jsstring | HttpOk 'a

text \<open>JavaScript truthiness of an optional string field: absent, \<open>null\<close> and \<open>""\<close> are
  falsy.\<close>

definition truthy :: "jsstring option \<Rightarrow> bool" where
  "truthy v = (case v of None \<Rightarrow> False | Some s \<Rightarrow> s \<noteq> [])"

datatype status = Pending | Running | Completed | Failed

record job =
  job_topic :: jsstring
  job_language :: jsstring
  job_targetLength :: int
  job_autoPublish :: bool

record gnews_article =
  g_url :: jsstring
  g_title :: jsstring
  g_description :: jsstring
  g_image :: "jsstring option"
  g_publishedAt :: jsstring

record article =
  a_jobId :: jsstring
  a_source :: jsstring
  a_url :: jsstring
  a_title :: jsstring
  a_content :: jsstring
  a_contentHash :: jsstring
  a_mediaUrl :: "jsstring option"
  a_publishedAt :: jsstring

record summary =
  s_jobId :: jsstring
  s_text :: jsstring
  s_wordCount :: nat
  s_language :: jsstring

record audio =
  au_jobId :: jsstring
  au_url :: jsstring
  au_duration :: int
  au_sampleRate :: int
  au_format :: jsstring
  au_size :: int

record video =
  v_jobId :: jsstring
  v_urlMp4 :: jsstring
  v_urlSrt :: "jsstring option"
  v_urlThumb :: jsstring
  v_width :: int
  v_height :: int
  v_duration :: int
  v_size :: int

record VideoRenderRequest =
  rq_summary :: jsstring
  rq_audioUrl :: jsstring
  rq_duration :: int
  rq_images :: "jsstring list"
  rq_title :: jsstring

record VideoRenderResult =
  rr_urlMp4 :: jsstring
  rr_urlSrt :: "jsstring option"
  rr_urlThumb :: jsstring
  rr_width :: int
  rr_height :: int
  rr_duration :: int
  rr_size :: int

text \<open>The JSON bodies the services answer with, as far as the code reads them.\<close>

record render_json =
  rj_urlMp4 :: "jsstring option"
  rj_urlSrt :: "jsstring option"
  rj_urlThumb :: jsstring
  rj_width :: int
  rj_height :: int
  rj_duration :: int
  rj_size :: int

record tts_json =
  tj_audio_url :: jsstring
  tj_duration :: int
  tj_format :: "jsstring option"

record tts_result =
  t_audioUrl :: jsstring
  t_duration :: int
  t_format :: jsstring

text \<open>The summarizer's body: an array, of which \<open>summary_text\<close> of each element is kept
  (\<open>None\<close> when the element has none), or an object with optional \<open>error\<close> and
  \<open>summary_text\<close>.\<close>

datatype hf_json = JArray "jsstring option list" | JObject "jsstring option" "jsstring option"

text \<open>
  The effects a run leaves behind, in order. A store write is recorded when the store call
  resolves (a store call that rejects is taken to have written nothing); a call to a remote
  service is recorded when it is issued, whatever its outcome.
\<close>

datatype event =
    UpdateJobStatus jsstring status "jsstring option" "nat option"
  | FetchArticles jsstring jsstring
  | CreateArticle article
  | HfRequest nat nat
  | Sleep nat
  | CreateSummary summary
  | TtsRequest jsstring jsstring
  | CreateAudio audio
  | RenderRequest VideoRenderRequest
  | CreateVideo video
  | UploadVideo jsstring jsstring jsstring "jsstring list"

type_synonym 'a io = "(thrown + 'a) \<times> event list"

definition ret :: "'a \<Rightarrow> 'a io" where
  "ret x = (Inr x, [])"

definition throw :: "thrown \<Rightarrow> 'a io" where
  "throw e = (Inl e, [])"

definition emit :: "event \<Rightarrow> unit io" where
  "emit ev = (Inr (), [ev])"

text \<open>\<open>await m\<close> followed by the rest of the block: a rejection skips the rest.\<close>

definition io_bind :: "'a io \<Rightarrow> ('a \<Rightarrow> 'b io) \<Rightarrow> 'b io" where
  "io_bind m f =
     (case m of
        (Inl e, tr) \<Rightarrow> (Inl e, tr)
      | (Inr x, tr) \<Rightarrow> (case f x of (r, tr') \<Rightarrow> (r, tr @ tr')))"


section \<open>services/nlp: HuggingFaceNLP\<close>

definition maxRetries :: nat where
  "maxRetries = 5"

definition initialTimeout :: nat where
  "initialTimeout = 30000"

definition healthCheckCacheDuration :: int where
  "healthCheckCacheDuration = 60000"

subsection \<open>summarize\<close>

text \<open>
  How the \<open>try\<close> block of one loop iteration ends: with \<open>continue\<close> (after the sleep of
  the 504 branch), with \<open>return\<close>, or with a throw that the \<open>catch\<close> of the same
  iteration receives.
\<close>

datatype try_exit = Continue | Return jsstring | Throw thrown

definition summarize_try :: "nat \<Rightarrow> hf_json http_outcome \<Rightarrow> try_exit" where
  "summarize_try attempt response =
     (case response of
        FetchRejects e \<Rightarrow> Throw e
      | HttpError status error \<Rightarrow>
          if status = 504 \<and> attempt < maxRetries then Continue
          else Throw (Error (js ''Hugging Face API error: '' @ toString10 status
                             @ js '' - '' @ take 200 error))
      | HttpOk result \<Rightarrow>
          (case result of
             JObject err summary_text \<Rightarrow>
               if truthy err then Throw (Error (js ''Summarization error: '' @ the err))
               else if truthy summary_text then Return (the summary_text)
               else Throw (Error (js ''Unexpected response format''))
           | JArray elems \<Rightarrow>
               (case elems of
                  first # _ \<Rightarrow>
                    if truthy first then Return (the first)
                    else Throw (Error (js ''Unexpected response format''))
                | [] \<Rightarrow> Throw (Error (js ''Unexpected response format'')))))"

text \<open>\<open>error instanceof Error ? error : new Error(String(error))\<close>\<close>

definition as_Error :: "thrown \<Rightarrow> thrown" where
  "as_Error error = (case error of ErrorObj _ _ \<Rightarrow> error | NonError str \<Rightarrow> Error str)"

text \<open>
  The \<open>for\<close> loop, from \<open>attempt\<close> on, with \<open>lastError\<close> as it stands. \<open>remote n\<close> is what
  the request of attempt \<open>n\<close> comes to (every request carries the same \<open>text\<close> and
  \<open>maxLength\<close>); a client-side timeout is the outcome \<open>FetchRejects AbortError\<close>. After
  the loop comes \<open>throw lastError || new Error('Failed to generate summary after retries')\<close>.
\<close>

function summarize_loop ::
  "(nat \<Rightarrow> hf_json http_outcome) \<Rightarrow> nat \<Rightarrow> thrown option \<Rightarrow> jsstring io" where
  "summarize_loop remote attempt lastError =
     (if attempt \<le> maxRetries then
        io_bind (emit (HfRequest attempt (initialTimeout * attempt))) (\<lambda>_.
          case summarize_try attempt (remote attempt) of
            Continue \<Rightarrow>
              io_bind (emit (Sleep (2000 * attempt))) (\<lambda>_.
                summarize_loop remote (attempt + 1) lastError)
          | Return summary_text \<Rightarrow> ret summary_text
          | Throw error \<Rightarrow>
              (let lastError' = as_Error error
               in if is_AbortError error \<and> attempt < maxRetries then
                    io_bind (emit (Sleep (2000 * attempt))) (\<lambda>_.
                      summarize_loop remote (attempt + 1) (Some lastError'))
                  else if attempt = maxRetries then throw lastError'
                  else summarize_loop remote (attempt + 1) (Some lastError')))
      else
        (case lastError of
           Some e \<Rightarrow> throw e
         | None \<Rightarrow> throw (Error (js ''Failed to generate summary after retries''))))"
  by pat_completeness auto
termination
  by (relation "measure (\<lambda>(remote, attempt, lastError). Suc maxRetries - attempt)") auto

declare summarize_loop.simps [simp del]

definition summarize ::
  "jsstring \<Rightarrow> (nat \<Rightarrow> hf_json http_outcome) \<Rightarrow> jsstring io" where
  "summarize apiKey remote =
     (if apiKey = [] then throw (Error (js ''HUGGINGFACE_API_KEY not configured''))
      else summarize_loop remote 1 None)"

text \<open>
  Vocabulary for the statements about \<open>summarize\<close>: the two outcomes the source waits
  after (an HTTP 504, a client-side timeout), the effects of an attempt that is followed by
  another one, and \<open>lastError\<close> after an attempt.
\<close>

definition is_504 :: "'a http_outcome \<Rightarrow> bool" where
  "is_504 response = (case response of HttpError status _ \<Rightarrow> status = 504 | _ \<Rightarrow> False)"

definition is_client_timeout :: "'a http_outcome \<Rightarrow> bool" where
  "is_client_timeout response =
     (case response of FetchRejects e \<Rightarrow> is_AbortError e | _ \<Rightarrow> False)"

definition attempt_events :: "(nat \<Rightarrow> hf_json http_outcome) \<Rightarrow> nat \<Rightarrow> event list" where
  "attempt_events remote n =
     HfRequest n (30000 * n)
     # (if is_504 (remote n) \<or> is_client_timeout (remote n) then [Sleep (2000 * n)] else [])"

fun is_Return :: "try_exit \<Rightarrow> bool" where
  "is_Return (Return _) = True"
| "is_Return _ = False"

definition next_lastError :: "try_exit \<Rightarrow> thrown option \<Rightarrow> thrown option" where
  "next_lastError ex le = (case ex of Throw e \<Rightarrow> Some (as_Error e) | _ \<Rightarrow> le)"

text \<open>Concrete remotes: two gateway timeouts and then a summary; one server error and then
  a summary; a server error on every attempt.\<close>

definition demo_apiKey :: jsstring where
  "demo_apiKey = js ''hf_demo_key''"

definition remote_504_504_ok :: "nat \<Rightarrow> hf_json http_outcome" where
  "remote_504_504_ok n =
     (if n < 3 then HttpError 504 (js ''Gateway Timeout'')
      else HttpOk (JArray [Some (js ''Flooding displaced thousands.'')]))"

definition remote_500_then_ok :: "nat \<Rightarrow> hf_json http_outcome" where
  "remote_500_then_ok n =
     (if n = 1 then HttpError 500 (js ''Internal Server Error'')
      else HttpOk (JArray [Some (js ''Flooding displaced thousands.'')]))"

definition remote_always_500 :: "nat \<Rightarrow> hf_json http_outcome" where
  "remote_always_500 n = HttpError 500 (js ''Internal Server Error'')"

subsection \<open>checkHealth\<close>

record health_cache =
  lastHealthCheck :: bool
  lastHealthCheckTime :: int

definition initial_health_cache :: health_cache where
  "initial_health_cache = \<lparr>lastHealthCheck = True, lastHealthCheckTime = 0\<rparr>"

text \<open>
  \<open>checkHealth\<close> is an \<open>async\<close> function with one \<open>await\<close>, on the \<open>fetch\<close>. A call
  therefore runs in two uninterrupted parts, and other calls may run between them.

  The first part, at the call: without an API key it returns false; with a cache younger
  than the cache duration (by \<open>now = Date.now()\<close>) it returns the cached value; otherwise
  it issues the request and suspends (\<open>None\<close>). It does not write the cache.
\<close>

definition checkHealth_begin :: "jsstring \<Rightarrow> health_cache \<Rightarrow> int \<Rightarrow> bool option" where
  "checkHealth_begin apiKey cache now =
     (if apiKey = [] then Some False
      else if now - lastHealthCheckTime cache < healthCheckCacheDuration
      then Some (lastHealthCheck cache)
      else None)"

text \<open>
  The second part, when the request settles: \<open>cache\<close> is the cache as it stands then,
  \<open>now\<close> the time the call read at its start, \<open>response\<close> what the request came to
  (\<open>HttpOk ()\<close> for \<open>response.ok\<close>, \<open>HttpError\<close> otherwise). It returns the boolean and
  the cache it leaves.
\<close>

definition checkHealth_settle ::
  "health_cache \<Rightarrow> int \<Rightarrow> unit http_outcome \<Rightarrow> bool \<times> health_cache" where
  "checkHealth_settle cache now response =
     (case response of
        HttpOk _ \<Rightarrow> (True, cache\<lparr>lastHealthCheck := True, lastHealthCheckTime := now\<rparr>)
      | HttpError _ _ \<Rightarrow>
          (False, cache\<lparr>lastHealthCheck := False, lastHealthCheckTime := now\<rparr>)
      | FetchRejects error \<Rightarrow>
          if is_AbortError error \<and> lastHealthCheck cache
          then (lastHealthCheck cache, cache)
          else (False, cache\<lparr>lastHealthCheck := False, lastHealthCheckTime := now\<rparr>))"

text \<open>One call that nothing interrupts: the returned boolean, the cache afterwards and the
  number of remote calls made.\<close>

definition checkHealth ::
  "jsstring \<Rightarrow> health_cache \<Rightarrow> int \<Rightarrow> unit http_outcome \<Rightarrow> bool \<times> health_cache \<times> nat" where
  "checkHealth apiKey cache now response =
     (case checkHealth_begin apiKey cache now of
        Some b \<Rightarrow> (b, cache, 0)
      | None \<Rightarrow>
          (case checkHealth_settle cache now response of (b, cache') \<Rightarrow> (b, cache', 1)))"

text \<open>
  Several calls on the one adapter, in any interleaving the event loop allows: \<open>Call i now\<close>
  is call \<open>i\<close> being made at time \<open>now\<close>, \<open>Settle i response\<close> the request of call \<open>i\<close>
  settling. The run keeps the shared cache, the calls whose request is in flight (with
  the time each read), the booleans returned so far, in order, and the number of remote
  calls made. Settling a call that has no request in flight changes nothing.
\<close>

datatype health_action = Call nat int | Settle nat "unit http_outcome"

record health_run =
  hr_cache :: health_cache
  hr_inflight :: "(nat \<times> int) list"
  hr_returned :: "(nat \<times> bool) list"
  hr_remote_calls :: nat

definition health_start :: "health_cache \<Rightarrow> health_run" where
  "health_start cache =
     \<lparr>hr_cache = cache, hr_inflight = [], hr_returned = [], hr_remote_calls = 0\<rparr>"

fun health_step :: "jsstring \<Rightarrow> health_run \<Rightarrow> health_action \<Rightarrow> health_run" where
  "health_step apiKey s (Call i now) =
     (case checkHealth_begin apiKey (hr_cache s) now of
        Some b \<Rightarrow> s\<lparr>hr_returned := hr_returned s @ [(i, b)]\<rparr>
      | None \<Rightarrow> s\<lparr>hr_inflight := hr_inflight s @ [(i, now)],
                   hr_remote_calls := Suc (hr_remote_calls s)\<rparr>)"
| "health_step apiKey s (Settle i response) =
     (case map_of (hr_inflight s) i of
        None \<Rightarrow> s
      | Some now \<Rightarrow>
          (case checkHealth_settle (hr_cache s) now response of
             (b, cache') \<Rightarrow>
               s\<lparr>hr_cache := cache',
                  hr_inflight := filter (\<lambda>(j, t). j \<noteq> i) (hr_inflight s),
                  hr_returned := hr_returned s @ [(i, b)]\<rparr>))"

definition health_run :: "jsstring \<Rightarrow> health_cache \<Rightarrow> health_action list \<Rightarrow> health_run" where
  "health_run apiKey cache actions = foldl (health_step apiKey) (health_start cache) actions"


section \<open>The collaborators of the orchestrator\<close>

text \<open>
  Modelled from the spec: the job store (\<open>./storage\<close>), the article source
  (\<open>./services/gnews\<close>) and the job and artifact row types (\<open>@shared/schema\<close>) are not
  among the sources. Following the spec's section 6 they are taken as parameters: each
  store call and the article fetch either rejects with a thrown value or resolves, the
  \<open>create\<close> calls with the stored row and \<open>getJobById\<close> with the job or nothing. The
  remote services behind the adapters that are in the sources (summarizer, speech
  synthesis, video render, upload) are parameters in the same way.
\<close>

record env =
  st_updateJobStatus :: "jsstring \<Rightarrow> status \<Rightarrow> jsstring option \<Rightarrow> nat option \<Rightarrow> thrown option"
  st_getJobById :: "jsstring \<Rightarrow> thrown + job option"
  st_createArticle :: "article \<Rightarrow> thrown + article"
  st_createSummary :: "summary \<Rightarrow> thrown + summary"
  st_createAudio :: "audio \<Rightarrow> thrown + audio"
  st_createVideo :: "video \<Rightarrow> thrown + video"
  gnews_fetchArticles :: "jsstring \<Rightarrow> jsstring \<Rightarrow> thrown + gnews_article list"
  hf_apiKey :: jsstring
  hf_remote :: "jsstring \<Rightarrow> int \<Rightarrow> nat \<Rightarrow> hf_json http_outcome"
  tts_remote :: "jsstring \<Rightarrow> jsstring \<Rightarrow> tts_json http_outcome"
  render_remote :: "VideoRenderRequest \<Rightarrow> render_json http_outcome"
  yt_uploadVideo :: "jsstring \<Rightarrow> jsstring \<Rightarrow> jsstring \<Rightarrow> jsstring list \<Rightarrow> thrown + jsstring"

definition updateJobStatus ::
  "env \<Rightarrow> jsstring \<Rightarrow> status \<Rightarrow> jsstring option \<Rightarrow> nat option \<Rightarrow> unit io" where
  "updateJobStatus E jobId st err progress =
     (case st_updateJobStatus E jobId st err progress of
        Some e \<Rightarrow> throw e
      | None \<Rightarrow> emit (UpdateJobStatus jobId st err progress))"

definition getJobById :: "env \<Rightarrow> jsstring \<Rightarrow> job option io" where
  "getJobById E jobId = (st_getJobById E jobId, [])"

definition fetchArticles :: "env \<Rightarrow> jsstring \<Rightarrow> jsstring \<Rightarrow> gnews_article list io" where
  "fetchArticles E topic language =
     (gnews_fetchArticles E topic language, [FetchArticles topic language])"

definition createArticle :: "env \<Rightarrow> article \<Rightarrow> article io" where
  "createArticle E row =
     (case st_createArticle E row of
        Inl e \<Rightarrow> throw e
      | Inr stored \<Rightarrow> (Inr stored, [CreateArticle row]))"

definition createSummary :: "env \<Rightarrow> summary \<Rightarrow> summary io" where
  "createSummary E row =
     (case st_createSummary E row of
        Inl e \<Rightarrow> throw e
      | Inr stored \<Rightarrow> (Inr stored, [CreateSummary row]))"

definition createAudio :: "env \<Rightarrow> audio \<Rightarrow> audio io" where
  "createAudio E row =
     (case st_createAudio E row of
        Inl e \<Rightarrow> throw e
      | Inr stored \<Rightarrow> (Inr stored, [CreateAudio row]))"

definition createVideo :: "env \<Rightarrow> video \<Rightarrow> video io" where
  "createVideo E row =
     (case st_createVideo E row of
        Inl e \<Rightarrow> throw e
      | Inr stored \<Rightarrow> (Inr stored, [CreateVideo row]))"

section \<open>services/video: VideoService\<close>

text \<open>Both methods wrap their body in \<open>try { ... } catch (error) { console.error(...);
  throw error; }\<close>, which rethrows what it caught.\<close>

definition tts_result_of :: "tts_json \<Rightarrow> tts_result" where
  "tts_result_of result =
     \<lparr>t_audioUrl = tj_audio_url result,
      t_duration = tj_duration result,
      t_format = (if truthy (tj_format result) then the (tj_format result) else js ''mp3'')\<rparr>"

definition generateTTS :: "env \<Rightarrow> jsstring \<Rightarrow> jsstring \<Rightarrow> tts_result io" where
  "generateTTS E text language =
     io_bind (emit (TtsRequest text language)) (\<lambda>_.
       case tts_remote E text language of
         FetchRejects e \<Rightarrow> throw e
       | HttpError status errorText \<Rightarrow>
           throw (Error (js ''TTS service error: '' @ toString10 status
                         @ js '' - '' @ errorText))
       | HttpOk result \<Rightarrow> ret (tts_result_of result))"

definition render_result_of :: "render_json \<Rightarrow> VideoRenderResult" where
  "render_result_of result =
     \<lparr>rr_urlMp4 = the (rj_urlMp4 result),
      rr_urlSrt = (if truthy (rj_urlSrt result) then rj_urlSrt result else None),
      rr_urlThumb = rj_urlThumb result,
      rr_width = rj_width result,
      rr_height = rj_height result,
      rr_duration = rj_duration result,
      rr_size = rj_size result\<rparr>"

definition renderVideo :: "env \<Rightarrow> VideoRenderRequest \<Rightarrow> VideoRenderResult io" where
  "renderVideo E request =
     io_bind (emit (RenderRequest request)) (\<lambda>_.
       case render_remote E request of
         FetchRejects e \<Rightarrow> throw e
       | HttpError status errorText \<Rightarrow>
           throw (Error (js ''Video service error: '' @ toString10 status
                         @ js '' - '' @ errorText))
       | HttpOk result \<Rightarrow>
           if \<not> truthy (rj_urlMp4 result)
           then throw (Error (js ''Video service did not return urlMp4''))
           else ret (render_result_of result))"

section \<open>services/youtube: publishVideo\<close>

record publication =
  p_videoId :: jsstring
  p_url :: jsstring

text \<open>\<open>uploadVideo\<close> downloads the file and calls the YouTube API; here it is the one
  effect \<open>UploadVideo\<close>, resolving with the video id or rejecting. Of the object
  \<open>publishVideo\<close> returns, the field \<open>publishedAt: new Date()\<close> is left out.\<close>

definition uploadVideo ::
  "env \<Rightarrow> jsstring \<Rightarrow> jsstring \<Rightarrow> jsstring \<Rightarrow> jsstring list \<Rightarrow> jsstring io" where
  "uploadVideo E videoUrl title description tags =
     (yt_uploadVideo E videoUrl title description tags,
      [UploadVideo videoUrl title description tags])"

definition publishVideo :: "env \<Rightarrow> job \<Rightarrow> video \<Rightarrow> publication io" where
  "publishVideo E job video =
     (let videoUrl = v_urlMp4 video;
          title = job_topic job @ js '' - AutoNews Summary'';
          description = js ''Automated news summary about '' @ job_topic job
                        @ [10, 10] @ js ''Generated by AutoNews AI'';
          tags = [job_topic job, js ''news'', js ''AI summary'', js ''AutoNews'']
      in io_bind (uploadVideo E videoUrl title description tags) (\<lambda>videoId.
           ret \<lparr>p_videoId = videoId,
                p_url = js ''https://www.youtube.com/watch?v='' @ videoId\<rparr>))"

section \<open>routes.ts: processJob\<close>

text \<open>The object literals the function builds. \<open>qualityFlags\<close> of a summary is the
  constant \<open>{}\<close> and is left out; \<open>new Date(publishedAt)\<close> is carried as the string it
  is built from.\<close>

definition article_row :: "jsstring \<Rightarrow> gnews_article \<Rightarrow> article" where
  "article_row jobId first =
     \<lparr>a_jobId = jobId, a_source = js ''gnews'', a_url = g_url first,
      a_title = g_title first, a_content = g_description first,
      a_contentHash = generateHash (g_description first),
      a_mediaUrl = g_image first, a_publishedAt = g_publishedAt first\<rparr>"

definition summary_input :: "article \<Rightarrow> jsstring" where
  "summary_input article = a_title article @ [10, 10] @ a_content article"

definition summary_row :: "jsstring \<Rightarrow> job \<Rightarrow> jsstring \<Rightarrow> summary" where
  "summary_row jobId job summaryText =
     \<lparr>s_jobId = jobId, s_text = summaryText,
      s_wordCount = length (split_ws summaryText),
      s_language = job_language job\<rparr>"

definition audio_row :: "jsstring \<Rightarrow> tts_result \<Rightarrow> audio" where
  "audio_row jobId audioResult =
     \<lparr>au_jobId = jobId, au_url = t_audioUrl audioResult,
      au_duration = t_duration audioResult, au_sampleRate = 44100,
      au_format = t_format audioResult, au_size = 0\<rparr>"

definition render_request :: "article \<Rightarrow> summary \<Rightarrow> tts_result \<Rightarrow> VideoRenderRequest" where
  "render_request article summary audioResult =
     \<lparr>rq_summary = s_text summary, rq_audioUrl = t_audioUrl audioResult,
      rq_duration = t_duration audioResult,
      rq_images = (if truthy (a_mediaUrl article) then [the (a_mediaUrl article)] else []),
      rq_title = a_title article\<rparr>"

definition video_row :: "jsstring \<Rightarrow> VideoRenderResult \<Rightarrow> video" where
  "video_row jobId videoResult =
     \<lparr>v_jobId = jobId, v_urlMp4 = rr_urlMp4 videoResult,
      v_urlSrt = rr_urlSrt videoResult, v_urlThumb = rr_urlThumb videoResult,
      v_width = rr_width videoResult, v_height = rr_height videoResult,
      v_duration = rr_duration videoResult, v_size = rr_size videoResult\<rparr>"

text \<open>The body of the \<open>try\<close> block.\<close>

definition processJob_try :: "env \<Rightarrow> jsstring \<Rightarrow> unit io" where
  "processJob_try E jobId =
     io_bind (updateJobStatus E jobId Running None (Some 10)) (\<lambda>_.
     io_bind (getJobById E jobId) (\<lambda>found.
     case found of
       None \<Rightarrow> throw (Error (js ''Job not found''))
     | Some job \<Rightarrow>
     io_bind (fetchArticles E (job_topic job) (job_language job)) (\<lambda>articles.
     case articles of
       [] \<Rightarrow> throw (Error (js ''No articles found''))
     | first # _ \<Rightarrow>
     io_bind (createArticle E (article_row jobId first)) (\<lambda>article.
     io_bind (updateJobStatus E jobId Running None (Some 25)) (\<lambda>_.
     io_bind (summarize (hf_apiKey E)
                (hf_remote E (summary_input article) (job_targetLength job))) (\<lambda>summaryText.
     io_bind (createSummary E (summary_row jobId job summaryText)) (\<lambda>summary.
     io_bind (updateJobStatus E jobId Running None (Some 50)) (\<lambda>_.
     io_bind (generateTTS E (s_text summary) (job_language job)) (\<lambda>audioResult.
     io_bind (createAudio E (audio_row jobId audioResult)) (\<lambda>audio.
     io_bind (updateJobStatus E jobId Running None (Some 75)) (\<lambda>_.
     io_bind (renderVideo E (render_request article summary audioResult)) (\<lambda>videoResult.
     io_bind (createVideo E (video_row jobId videoResult)) (\<lambda>video.
     io_bind (updateJobStatus E jobId Completed None (Some 100)) (\<lambda>_.
     if job_autoPublish job
     then io_bind (publishVideo E job video) (\<lambda>_. ret ())
     else ret ()))))))))))))))"

text \<open>\<open>error instanceof Error ? error.message : "Unknown error"\<close>\<close>

definition error_message :: "thrown \<Rightarrow> jsstring" where
  "error_message error =
     (case error of ErrorObj _ message \<Rightarrow> message | NonError _ \<Rightarrow> js ''Unknown error'')"

text \<open>The whole function: the \<open>catch\<close> block writes the status \<open>failed\<close> with the message
  and no progress value. The result is \<open>Inl\<close> only when that write itself rejects.\<close>

definition processJob :: "env \<Rightarrow> jsstring \<Rightarrow> unit io" where
  "processJob E jobId =
     (case processJob_try E jobId of
        (Inr u, tr) \<Rightarrow> (Inr u, tr)
      | (Inl error, tr) \<Rightarrow>
          (case updateJobStatus E jobId Failed (Some (error_message error)) None of
             (r, tr') \<Rightarrow> (r, tr @ tr')))"

section \<open>What a trace shows of a job\<close>

fun status_write :: "event \<Rightarrow> status option" where
  "status_write (UpdateJobStatus _ st _ _) = Some st"
| "status_write _ = None"

fun progress_write :: "event \<Rightarrow> nat option" where
  "progress_write (UpdateJobStatus _ _ _ progress) = progress"
| "progress_write _ = None"

fun error_write :: "event \<Rightarrow> jsstring option option" where
  "error_write (UpdateJobStatus _ _ err _) = Some err"
| "error_write _ = None"

definition status_writes :: "event list \<Rightarrow> status list" where
  "status_writes tr = List.map_filter status_write tr"

definition progress_writes :: "event list \<Rightarrow> nat list" where
  "progress_writes tr = List.map_filter progress_write tr"

text \<open>The status and the error message a reader of the store finds after the run: those of
  the last status write (\<open>None\<close> when the run wrote none, so that they are as before).\<close>

definition final_status :: "event list \<Rightarrow> status option" where
  "final_status tr = (case status_writes tr of [] \<Rightarrow> None | sts \<Rightarrow> Some (last sts))"

definition final_error :: "event list \<Rightarrow> jsstring option" where
  "final_error tr =
     (case List.map_filter error_write tr of [] \<Rightarrow> None | errs \<Rightarrow> last errs)"

definition final_progress :: "event list \<Rightarrow> nat option" where
  "final_progress tr = (case progress_writes tr of [] \<Rightarrow> None | ps \<Rightarrow> Some (last ps))"

fun is_artifact :: "event \<Rightarrow> bool" where
  "is_artifact (CreateArticle _) = True"
| "is_artifact (CreateSummary _) = True"
| "is_artifact (CreateAudio _) = True"
| "is_artifact (CreateVideo _) = True"
| "is_artifact _ = False"

definition artifacts :: "event list \<Rightarrow> event list" where
  "artifacts tr = filter is_artifact tr"

text \<open>The status writes of a run with their progress values, and the writes of a run
  in which nothing fails.\<close>

fun update_write :: "event \<Rightarrow> (status \<times> nat option) option" where
  "update_write (UpdateJobStatus _ st _ progress) = Some (st, progress)"
| "update_write _ = None"

definition update_writes :: "event list \<Rightarrow> (status \<times> nat option) list" where
  "update_writes tr = List.map_filter update_write tr"

definition pipeline_writes :: "(status \<times> nat option) list" where
  "pipeline_writes =
     [(Running, Some 10), (Running, Some 25), (Running, Some 50), (Running, Some 75),
      (Completed, Some 100)]"

text \<open>The word count of a persisted summary agrees with its text.\<close>

fun wordCount_consistent :: "event \<Rightarrow> bool" where
  "wordCount_consistent (CreateSummary row) =
     (s_wordCount row = length (split_ws (s_text row)))"
| "wordCount_consistent _ = True"

fun is_fetch :: "event \<Rightarrow> bool" where
  "is_fetch (FetchArticles _ _) = True"
| "is_fetch _ = False"

fun is_publish :: "event \<Rightarrow> bool" where
  "is_publish (UploadVideo _ _ _ _) = True"
| "is_publish _ = False"

fun is_hf_request :: "event \<Rightarrow> bool" where
  "is_hf_request (HfRequest _ _) = True"
| "is_hf_request _ = False"

fun is_summarizer_event :: "event \<Rightarrow> bool" where
  "is_summarizer_event (HfRequest _ _) = True"
| "is_summarizer_event (Sleep _) = True"
| "is_summarizer_event _ = False"

fun artifact_jobId :: "event \<Rightarrow> jsstring option" where
  "artifact_jobId (CreateArticle row) = Some (a_jobId row)"
| "artifact_jobId (CreateSummary row) = Some (s_jobId row)"
| "artifact_jobId (CreateAudio row) = Some (au_jobId row)"
| "artifact_jobId (CreateVideo row) = Some (v_jobId row)"
| "artifact_jobId _ = None"


section \<open>Concrete jobs and environments\<close>

text \<open>A job on the topic "climate", a store that accepts every write and returns the row
  it was given, an article source with one article, and remote services that all answer
  well. The variants change one collaborator each.\<close>

definition demo_jobId :: jsstring where
  "demo_jobId = js ''job-1''"

definition demo_job :: "bool \<Rightarrow> job" where
  "demo_job autoPublish =
     \<lparr>job_topic = js ''climate'', job_language = js ''en'', job_targetLength = 150,
      job_autoPublish = autoPublish\<rparr>"

definition demo_gnews_article :: gnews_article where
  "demo_gnews_article =
     \<lparr>g_url = js ''https://news.example/flood'', g_title = js ''Flood'',
      g_description = js ''Rivers rose after days of rain.'',
      g_image = Some (js ''https://news.example/flood.jpg''),
      g_publishedAt = js ''2024-05-01T08:00:00Z''\<rparr>"

definition remote_ok :: "nat \<Rightarrow> hf_json http_outcome" where
  "remote_ok n = HttpOk (JArray [Some (js ''Rivers rose.'')])"

definition demo_tts_json :: tts_json where
  "demo_tts_json =
     \<lparr>tj_audio_url = js ''https://media.example/a.mp3'', tj_duration = 4,
      tj_format = None\<rparr>"

definition demo_render_json :: render_json where
  "demo_render_json =
     \<lparr>rj_urlMp4 = Some (js ''https://media.example/v.mp4''), rj_urlSrt = None,
      rj_urlThumb = js ''https://media.example/v.jpg'', rj_width = 1920,
      rj_height = 1080, rj_duration = 4, rj_size = 1000\<rparr>"

definition env_ok :: "bool \<Rightarrow> env" where
  "env_ok autoPublish =
     \<lparr>st_updateJobStatus = (\<lambda>jobId st err progress. None),
      st_getJobById = (\<lambda>jobId. Inr (Some (demo_job autoPublish))),
      st_createArticle = Inr,
      st_createSummary = Inr,
      st_createAudio = Inr,
      st_createVideo = Inr,
      gnews_fetchArticles = (\<lambda>topic language. Inr [demo_gnews_article]),
      hf_apiKey = demo_apiKey,
      hf_remote = (\<lambda>text maxLength. remote_ok),
      tts_remote = (\<lambda>text language. HttpOk demo_tts_json),
      render_remote = (\<lambda>request. HttpOk demo_render_json),
      yt_uploadVideo = (\<lambda>videoUrl title description tags. Inr (js ''yt-42''))\<rparr>"

definition env_no_articles :: env where
  "env_no_articles = (env_ok False)\<lparr>gnews_fetchArticles := (\<lambda>topic language. Inr [])\<rparr>"

definition env_render_incomplete :: env where
  "env_render_incomplete =
     (env_ok False)\<lparr>render_remote := (\<lambda>request. HttpOk (demo_render_json\<lparr>rj_urlMp4 := None\<rparr>))\<rparr>"

definition env_publish_fails :: env where
  "env_publish_fails =
     (env_ok True)\<lparr>yt_uploadVideo :=
        (\<lambda>videoUrl title description tags. Inl (Error (js ''quotaExceeded'')))\<rparr>"

section \<open>The content fingerprint\<close>

lemma ToInt32_sint: "ToInt32 x = sint (word_of_int x :: 32 word)"
  by (simp add: ToInt32_def sint_sbintrunc' signed_take_bit_eq_take_bit_shift take_bit_eq_mod)

lemma hash_step_acc32: "hash_step (sint h) c = sint (acc32_step h c)"
  by (simp add: hash_step_def acc32_step_def js_shl_def js_and_self_def ToInt32_sint
      push_bit_eq_mult)

lemma foldl_hash_step_acc32:
  "foldl hash_step (sint h) cs = sint (foldl acc32_step h cs)"
  by (induction cs arbitrary: h) (simp_all add: hash_step_acc32)

lemma hash_loop_acc32: "hash_loop content = sint (acc32 content)"
  using foldl_hash_step_acc32 [of 0 content] by (simp add: hash_loop_def acc32_def)

lemma abs_sint32_le: "\<bar>sint (h :: 32 word)\<bar> \<le> 2 ^ 31"
  using sint_range_size [of h] by (simp add: word_size abs_le_iff)

lemma unat_of_nat16: "n < 65536 \<Longrightarrow> unat (of_nat n :: 16 word) = n"
  by (simp add: unat_of_nat take_bit_eq_mod)

lemma digit_val_digit_char: "d < 16 \<Longrightarrow> digit_val (digit_char d) = d"
  by (simp add: digit_val_def digit_char_def unat_of_nat16 del: of_nat_add)

lemma parse_toString_radix:
  "2 \<le> r \<Longrightarrow> r \<le> 16 \<Longrightarrow> parse_radix r (toString_radix r n) = n"
proof (induction r n rule: toString_radix.induct)
  case (1 r n)
  show ?case
  proof (cases "n < r")
    case True
    with 1 show ?thesis by (simp add: parse_radix_def digit_val_digit_char)
  next
    case False
    have "n mod r < r" using 1(2) by simp
    then have "n mod r < 16" using 1(3) by linarith
    with False 1 show ?thesis
      by (simp add: parse_radix_def digit_val_digit_char)
  qed
qed

text \<open>
  Claim C9. \<open>generateHash\<close> is a function of the content string alone (equal strings give
  equal fingerprints). Its result is the base-16 rendering of the absolute value of the
  32-bit signed accumulator that starts at 0 and is updated, per code unit, to
  \<open>((hash << 5) - hash) + charCode\<close>: the Number computation of the source and the
  32-bit register agree at every step, reading the digits back gives that absolute value,
  the value lies between 0 and \<open>2^31\<close> inclusive, and the empty string gives \<open>"0"\<close>.
\<close>

theorem generateHash_hex_of_abs_acc32:
  "generateHash content = toString16 (nat \<bar>sint (acc32 content)\<bar>)
   \<and> parse_radix 16 (generateHash content) = nat \<bar>sint (acc32 content)\<bar>
   \<and> hash_loop content = sint (acc32 content)
   \<and> 0 \<le> \<bar>hash_loop content\<bar> \<and> \<bar>hash_loop content\<bar> \<le> 2 ^ 31
   \<and> generateHash [] = js ''0''
   \<and> (content = content' \<longrightarrow> generateHash content = generateHash content')"
proof -
  have a: "generateHash content = toString16 (nat \<bar>sint (acc32 content)\<bar>)"
    by (simp add: generateHash_def hash_loop_acc32)
  have b: "parse_radix 16 (generateHash content) = nat \<bar>sint (acc32 content)\<bar>"
    unfolding a toString16_def by (rule parse_toString_radix) simp_all
  have c: "\<bar>hash_loop content\<bar> \<le> 2 ^ 31"
    unfolding hash_loop_acc32 by (rule abs_sint32_le)
  have d: "generateHash [] = js ''0''"
    by (simp add: generateHash_def hash_loop_def toString16_def digit_char_def js_def)
  from a b c d hash_loop_acc32 [of content] show ?thesis by simp
qed

theorem generateHash_hex_of_abs_acc32_witness:
  "js ''hello'' = js ''hello''
   \<and> generateHash (js ''hello'') = js ''5e918d2''
   \<and> parse_radix 16 (generateHash (js ''hello'')) = nat \<bar>sint (acc32 (js ''hello''))\<bar>
   \<and> hash_loop (js ''hello'') = 99162322"
proof -
  have h: "hash_loop (js ''hello'') = 99162322"
    by (simp add: hash_loop_def hash_step_def js_shl_def js_and_self_def ToInt32_def js_def)
  have v: "generateHash (js ''hello'') = js ''5e918d2''"
    unfolding generateHash_def h by (simp add: toString16_def digit_char_def js_def)
  from generateHash_hex_of_abs_acc32 [of "js ''hello''" "js ''hello''"] h v
  show ?thesis by blast
qed

section \<open>The summarizer's retry loop\<close>

lemma not_abort_Error [simp]: "\<not> is_AbortError (Error m)"
  by (simp add: is_AbortError_def Error_def js_def)

lemma try_Continue_iff:
  "summarize_try n r = Continue \<longleftrightarrow> is_504 r \<and> n < maxRetries"
  by (auto simp: summarize_try_def is_504_def split: http_outcome.splits hf_json.splits list.splits)

lemma try_Throw_abort_iff:
  "summarize_try n r = Throw e \<Longrightarrow> is_AbortError e \<longleftrightarrow> is_client_timeout r"
  by (auto simp: summarize_try_def is_client_timeout_def split: http_outcome.splits hf_json.splits list.splits if_splits)

lemma is_504_not_timeout: "is_504 r \<Longrightarrow> \<not> is_client_timeout r"
  by (auto simp: is_504_def is_client_timeout_def split: http_outcome.splits)

lemma loop_Return:
  "a \<le> maxRetries \<Longrightarrow> summarize_try a (remote a) = Return s \<Longrightarrow>
   summarize_loop remote a le = (Inr s, [HfRequest a (30000 * a)])"
  by (subst summarize_loop.simps) (simp add: io_bind_def emit_def ret_def initialTimeout_def)

lemma loop_last_Throw:
  "summarize_try maxRetries (remote maxRetries) = Throw e \<Longrightarrow>
   summarize_loop remote maxRetries le = (Inl (as_Error e), [HfRequest maxRetries (30000 * maxRetries)])"
  by (subst summarize_loop.simps) (simp add: io_bind_def emit_def throw_def initialTimeout_def as_Error_def)

lemma loop_retry:
  assumes "a < maxRetries" "\<not> is_Return (summarize_try a (remote a))"
  shows "summarize_loop remote a le =
           (fst (summarize_loop remote (Suc a) (next_lastError (summarize_try a (remote a)) le)),
            attempt_events remote a
            @ snd (summarize_loop remote (Suc a) (next_lastError (summarize_try a (remote a)) le)))"
proof (cases "summarize_try a (remote a)")
  case Continue
  then have "is_504 (remote a)" by (simp add: try_Continue_iff)
  with Continue assms(1) show ?thesis
    by (subst summarize_loop.simps)
       (auto simp: io_bind_def emit_def initialTimeout_def attempt_events_def next_lastError_def split: prod.splits)
next
  case (Return s)
  with assms show ?thesis by simp
next
  case (Throw e)
  have nc: "\<not> is_504 (remote a)" using Throw assms(1) try_Continue_iff [of a "remote a"] by auto
  show ?thesis
  proof (cases "is_AbortError e")
    case True
    then have "is_client_timeout (remote a)" using Throw try_Throw_abort_iff by blast
    with Throw True assms(1) show ?thesis
      by (subst summarize_loop.simps)
         (auto simp: io_bind_def emit_def initialTimeout_def attempt_events_def next_lastError_def as_Error_def split: prod.splits)
  next
    case False
    then have "\<not> is_client_timeout (remote a)" using Throw try_Throw_abort_iff by blast
    with Throw False assms(1) nc show ?thesis
      by (subst summarize_loop.simps)
         (auto simp: io_bind_def emit_def initialTimeout_def attempt_events_def next_lastError_def as_Error_def split: prod.splits)
  qed
qed


lemma retryable_not_Return:
  "is_504 r \<or> is_client_timeout r \<Longrightarrow> \<not> is_Return (summarize_try a r)"
  by (auto simp: summarize_try_def is_504_def is_client_timeout_def split: http_outcome.splits)

lemma last_not_Continue: "summarize_try maxRetries r \<noteq> Continue"
  by (simp add: try_Continue_iff)

lemma loop_last:
  "summarize_loop remote maxRetries le =
     (case summarize_try maxRetries (remote maxRetries) of
        Return s \<Rightarrow> Inr s | Throw e \<Rightarrow> Inl (as_Error e) | Continue \<Rightarrow> Inl (as_Error AbortError),
      [HfRequest maxRetries (30000 * maxRetries)])"
  using last_not_Continue [of "remote maxRetries"]
  by (cases "summarize_try maxRetries (remote maxRetries)")
     (simp_all add: loop_Return loop_last_Throw)

lemma loop_lastError_irrelevant:
  "a \<le> maxRetries \<Longrightarrow> \<forall>le le'. summarize_loop remote a le = summarize_loop remote a le'"
proof (induction a rule: inc_induct)
  case base
  show ?case by (simp add: loop_last)
next
  case (step n)
  show ?case
  proof (cases "is_Return (summarize_try n (remote n))")
    case True
    then obtain s where "summarize_try n (remote n) = Return s"
      by (cases "summarize_try n (remote n)") auto
    with step(1,2) show ?thesis by (simp add: loop_Return)
  next
    case False
    show ?thesis
    proof (intro allI)
      fix le le'
      show "summarize_loop remote n le = summarize_loop remote n le'"
        using step(3) by (simp add: loop_retry [where remote=remote and a=n, OF step(2) False]) metis
    qed
  qed
qed

lemma loop_retry_None:
  assumes "a < maxRetries" "\<not> is_Return (summarize_try a (remote a))"
  shows "summarize_loop remote a le =
           (fst (summarize_loop remote (Suc a) None),
            attempt_events remote a @ snd (summarize_loop remote (Suc a) None))"
proof -
  have "Suc a \<le> maxRetries" using assms(1) by simp
  from loop_lastError_irrelevant [OF this]
  show ?thesis by (subst loop_retry [where remote=remote and a=a, OF assms]) metis
qed

lemma loop_head:
  assumes "a \<le> maxRetries"
  shows "\<exists>rest. snd (summarize_loop remote a le) = HfRequest a (30000 * a) # rest"
proof (cases "is_Return (summarize_try a (remote a))")
  case True
  then obtain s where "summarize_try a (remote a) = Return s"
    by (cases "summarize_try a (remote a)") auto
  with assms show ?thesis by (simp add: loop_Return)
next
  case False
  show ?thesis
  proof (cases "a = maxRetries")
    case True
    then show ?thesis by (simp add: loop_last)
  next
    case False
    then have "a < maxRetries" using assms by simp
    from loop_retry_None [where remote=remote and a=a, OF this \<open>\<not> is_Return _\<close>] show ?thesis
      by (simp add: attempt_events_def)
  qed
qed

lemma loop_skip_failures:
  assumes "n \<le> maxRetries"
  shows "a \<le> n \<Longrightarrow> (\<forall>k. a \<le> k \<and> k < n \<longrightarrow> \<not> is_Return (summarize_try k (remote k))) \<Longrightarrow>
         summarize_loop remote a le =
           (fst (summarize_loop remote n None),
            concat (map (attempt_events remote) [a..<n]) @ snd (summarize_loop remote n None))"
proof (induction a arbitrary: le rule: inc_induct)
  case base
  have "summarize_loop remote n le = summarize_loop remote n None"
    using loop_lastError_irrelevant [OF assms] by blast
  then show ?case by simp
next
  case (step m)
  have m: "m < maxRetries" using step(2) assms by simp
  have nr: "\<not> is_Return (summarize_try m (remote m))" using step(1,2,4) by simp
  have ih: "summarize_loop remote (Suc m) None =
           (fst (summarize_loop remote n None),
            concat (map (attempt_events remote) [Suc m..<n]) @ snd (summarize_loop remote n None))"
    using step(3) [of None] step(4) by simp
  have "[m..<n] = m # [Suc m..<n]" using step(2) by (simp add: upt_conv_Cons)
  then show ?case
    by (simp add: loop_retry_None [where remote=remote and a=m, OF m nr] ih)
qed


lemma loop_requests_le:
  "a \<le> maxRetries \<Longrightarrow>
   length (filter is_hf_request (snd (summarize_loop remote a le))) \<le> Suc maxRetries - a"
proof (induction a arbitrary: le rule: inc_induct)
  case base
  show ?case by (simp add: loop_last)
next
  case (step n)
  show ?case
  proof (cases "is_Return (summarize_try n (remote n))")
    case True
    then obtain s where "summarize_try n (remote n) = Return s"
      by (cases "summarize_try n (remote n)") auto
    with step(1,2) show ?thesis by (simp add: loop_Return)
  next
    case False
    have "length (filter is_hf_request (attempt_events remote n)) = 1"
      by (simp add: attempt_events_def)
    with step(3) [of None] step(2) show ?thesis
      by (simp add: loop_retry_None [where remote=remote and a=n, OF step(2) False])
  qed
qed

lemma loop_request_timeout:
  "a \<le> maxRetries \<Longrightarrow> HfRequest n t \<in> set (snd (summarize_loop remote a le)) \<Longrightarrow>
   t = 30000 * n \<and> a \<le> n \<and> n \<le> maxRetries"
proof (induction a arbitrary: le rule: inc_induct)
  case base
  then show ?case by (simp add: loop_last)
next
  case (step m)
  show ?case
  proof (cases "is_Return (summarize_try m (remote m))")
    case True
    then obtain s where "summarize_try m (remote m) = Return s"
      by (cases "summarize_try m (remote m)") auto
    with step(1,2,4) show ?thesis by (simp add: loop_Return)
  next
    case False
    from step(4) have "HfRequest n t \<in> set (attempt_events remote m)
        \<or> HfRequest n t \<in> set (snd (summarize_loop remote (Suc m) None))"
      by (simp add: loop_retry_None [where remote=remote and a=m, OF step(2) False])
    then show ?thesis
    proof
      assume "HfRequest n t \<in> set (attempt_events remote m)"
      then show ?thesis using step(2) by (auto simp: attempt_events_def split: if_splits)
    next
      assume "HfRequest n t \<in> set (snd (summarize_loop remote (Suc m) None))"
      from step(3) [OF this] show ?thesis by simp
    qed
  qed
qed

lemma loop_backoff:
  "a \<le> maxRetries \<Longrightarrow> HfRequest n t \<in> set (snd (summarize_loop remote a le)) \<Longrightarrow>
   n < maxRetries \<Longrightarrow> is_504 (remote n) \<or> is_client_timeout (remote n) \<Longrightarrow>
   sublist [HfRequest n (30000 * n), Sleep (2000 * n), HfRequest (Suc n) (30000 * Suc n)]
     (snd (summarize_loop remote a le))"
proof (induction a arbitrary: le rule: inc_induct)
  case base
  then show ?case by (simp add: loop_last)
next
  case (step m)
  have nr: "\<not> is_Return (summarize_try n (remote n))"
    using step(6) by (rule retryable_not_Return)
  show ?case
  proof (cases "is_Return (summarize_try m (remote m))")
    case True
    then obtain s where "summarize_try m (remote m) = Return s"
      by (cases "summarize_try m (remote m)") auto
    with step(1,2,4) have "n = m" by (simp add: loop_Return)
    with True nr show ?thesis by simp
  next
    case False
    note unf = loop_retry_None [where remote=remote and a=m and le=le, OF step(2) False]
    show ?thesis
    proof (cases "n = m")
      case True
      obtain rest where rest: "snd (summarize_loop remote (Suc m) None)
          = HfRequest (Suc m) (30000 * Suc m) # rest"
        using loop_head [of "Suc m" remote None] step(2) by auto
      have "snd (summarize_loop remote m le) =
          [] @ [HfRequest n (30000 * n), Sleep (2000 * n), HfRequest (Suc n) (30000 * Suc n)] @ rest"
        using True step(6) by (simp add: unf rest attempt_events_def)
      then show ?thesis unfolding sublist_def by blast
    next
      case False
      from step(4) have "HfRequest n t \<in> set (snd (summarize_loop remote (Suc m) None))"
        using False by (auto simp: unf attempt_events_def split: if_splits)
      from step(3) [OF this step(5,6)]
      obtain ps ss where "snd (summarize_loop remote (Suc m) None) =
          ps @ [HfRequest n (30000 * n), Sleep (2000 * n), HfRequest (Suc n) (30000 * Suc n)] @ ss"
        unfolding sublist_def by blast
      then have "snd (summarize_loop remote m le) =
          (attempt_events remote m @ ps)
          @ [HfRequest n (30000 * n), Sleep (2000 * n), HfRequest (Suc n) (30000 * Suc n)] @ ss"
        by (simp add: unf)
      then show ?thesis unfolding sublist_def by blast
    qed
  qed
qed

lemma summarize_with_key:
  "apiKey \<noteq> [] \<Longrightarrow> summarize apiKey remote = summarize_loop remote 1 None"
  by (simp add: summarize_def)

lemma summarize_no_key [simp]: "snd (summarize [] remote) = []"
  by (simp add: summarize_def throw_def)

lemma one_le_maxRetries: "1 \<le> maxRetries"
  by (simp add: maxRetries_def)

text \<open>
  Claim C7. \<open>summarize\<close> issues at most 5 requests; the request of attempt \<open>n\<close> carries
  the timeout \<open>n \<times> 30000\<close> ms; when attempt \<open>n < 5\<close> ends in an HTTP 504 or a
  client-side timeout, the run goes on with a sleep of \<open>2000 \<times> n\<close> ms and then the
  request of attempt \<open>n + 1\<close>; and when attempts 1 and 2 answer 504 and attempt 3
  succeeds, \<open>summarize\<close> returns the result of attempt 3 after exactly three requests, with
  timeouts 30000, 60000 and 90000.
\<close>

theorem summarize_attempts_timeouts_backoff:
  "length (filter is_hf_request (snd (summarize apiKey remote))) \<le> 5
   \<and> (\<forall>n t. HfRequest n t \<in> set (snd (summarize apiKey remote))
          \<longrightarrow> t = n * 30000 \<and> 1 \<le> n \<and> n \<le> 5)
   \<and> (\<forall>n t. HfRequest n t \<in> set (snd (summarize apiKey remote)) \<and> n < 5
            \<and> (is_504 (remote n) \<or> is_client_timeout (remote n))
          \<longrightarrow> sublist [HfRequest n (n * 30000), Sleep (2000 * n),
                        HfRequest (Suc n) (Suc n * 30000)]
                (snd (summarize apiKey remote)))
   \<and> (apiKey \<noteq> [] \<and> is_504 (remote 1) \<and> is_504 (remote 2)
        \<and> summarize_try 3 (remote 3) = Return s
      \<longrightarrow> summarize apiKey remote =
            (Inr s, [HfRequest 1 30000, Sleep 2000, HfRequest 2 60000, Sleep 4000,
                     HfRequest 3 90000]))"
proof (cases "apiKey = []")
  case True
  then show ?thesis by simp
next
  case False
  note key = summarize_with_key [OF False]
  have c1: "length (filter is_hf_request (snd (summarize apiKey remote))) \<le> 5"
    using loop_requests_le [OF one_le_maxRetries, of remote None]
    by (simp add: key maxRetries_def)
  have c2: "t = n * 30000 \<and> 1 \<le> n \<and> n \<le> 5"
    if "HfRequest n t \<in> set (snd (summarize apiKey remote))" for n t
    using loop_request_timeout [OF one_le_maxRetries, of n t remote None] that
    by (simp add: key maxRetries_def)
  have c3: "sublist [HfRequest n (n * 30000), Sleep (2000 * n),
                     HfRequest (Suc n) (Suc n * 30000)] (snd (summarize apiKey remote))"
    if "HfRequest n t \<in> set (snd (summarize apiKey remote))" "n < 5"
       "is_504 (remote n) \<or> is_client_timeout (remote n)" for n t
    using loop_backoff [OF one_le_maxRetries, of n t remote None] that
    by (simp add: key maxRetries_def mult.commute)
  have c4: "summarize apiKey remote =
            (Inr s, [HfRequest 1 30000, Sleep 2000, HfRequest 2 60000, Sleep 4000,
                     HfRequest 3 90000])"
    if h: "is_504 (remote 1)" "is_504 (remote 2)" "summarize_try 3 (remote 3) = Return s"
  proof -
    have nr: "\<forall>k. 1 \<le> k \<and> k < 3 \<longrightarrow> \<not> is_Return (summarize_try k (remote k))"
    proof (intro allI impI)
      fix k :: nat assume "1 \<le> k \<and> k < 3"
      then have "k = 1 \<or> k = 2" by auto
      then show "\<not> is_Return (summarize_try k (remote k))"
        using h(1,2) retryable_not_Return by blast
    qed
    have up: "[Suc 0..<3] = [Suc 0, 2]" by (simp add: eval_nat_numeral upt_conv_Cons)
    have "summarize_loop remote 1 None =
           (fst (summarize_loop remote 3 None),
            concat (map (attempt_events remote) [1..<3]) @ snd (summarize_loop remote 3 None))"
      by (rule loop_skip_failures [where n=3]) (use nr in \<open>simp_all add: maxRetries_def\<close>)
    moreover have "summarize_loop remote 3 None = (Inr s, [HfRequest 3 (30000 * 3)])"
      by (rule loop_Return) (use h(3) in \<open>simp_all add: maxRetries_def\<close>)
    ultimately show ?thesis using h(1,2)
      by (simp add: key up attempt_events_def)
  qed
  from c1 c2 c3 c4 show ?thesis by blast
qed


theorem summarize_attempts_timeouts_backoff_witness:
  "demo_apiKey \<noteq> [] \<and> is_504 (remote_504_504_ok 1) \<and> is_504 (remote_504_504_ok 2)
   \<and> summarize_try 3 (remote_504_504_ok 3) = Return (js ''Flooding displaced thousands.'')
   \<and> summarize demo_apiKey remote_504_504_ok =
        (Inr (js ''Flooding displaced thousands.''),
         [HfRequest 1 30000, Sleep 2000, HfRequest 2 60000, Sleep 4000, HfRequest 3 90000])
   \<and> HfRequest 2 60000 \<in> set (snd (summarize demo_apiKey remote_504_504_ok)) \<and> (2::nat) < 5
   \<and> sublist [HfRequest 2 60000, Sleep 4000, HfRequest 3 90000]
        (snd (summarize demo_apiKey remote_504_504_ok))"
proof -
  note T = summarize_attempts_timeouts_backoff
    [of demo_apiKey remote_504_504_ok "js ''Flooding displaced thousands.''"]
  have k: "demo_apiKey \<noteq> []" by (simp add: demo_apiKey_def js_def)
  have r1: "is_504 (remote_504_504_ok 1)" by (simp add: remote_504_504_ok_def is_504_def)
  have r2: "is_504 (remote_504_504_ok 2)" by (simp add: remote_504_504_ok_def is_504_def)
  have r3: "summarize_try 3 (remote_504_504_ok 3) = Return (js ''Flooding displaced thousands.'')"
    by (simp add: summarize_try_def remote_504_504_ok_def truthy_def js_def)
  from T k r1 r2 r3 have ev: "summarize demo_apiKey remote_504_504_ok =
        (Inr (js ''Flooding displaced thousands.''),
         [HfRequest 1 30000, Sleep 2000, HfRequest 2 60000, Sleep 4000, HfRequest 3 90000])"
    by blast
  have mem: "HfRequest 2 60000 \<in> set (snd (summarize demo_apiKey remote_504_504_ok))"
    by (simp add: ev)
  from T have c3: "\<And>n t. HfRequest n t \<in> set (snd (summarize demo_apiKey remote_504_504_ok))
      \<Longrightarrow> n < 5 \<Longrightarrow> is_504 (remote_504_504_ok n) \<Longrightarrow>
      sublist [HfRequest n (n * 30000), Sleep (2000 * n), HfRequest (Suc n) (Suc n * 30000)]
        (snd (summarize demo_apiKey remote_504_504_ok))"
    by blast
  have lt: "(2::nat) < 5" by simp
  from c3 [OF mem lt r2] have sub: "sublist [HfRequest 2 60000, Sleep 4000, HfRequest 3 90000]
        (snd (summarize demo_apiKey remote_504_504_ok))"
    by simp
  from k r1 r2 r3 ev mem lt sub show ?thesis by blast
qed

text \<open>
  Claim C2, as amended. An attempt before the fifth that fails is always followed by the
  next attempt, whatever the class of its error: after an HTTP 504 or a client-side timeout
  the run sleeps \<open>2000 \<times> n\<close> ms first, after any other error (another HTTP status, an
  error payload, an unexpected body, a rejected fetch) it goes on at once
  (\<open>attempt_events\<close>). So when attempts \<open>1 .. n - 1\<close> fail and attempt \<open>n\<close> succeeds,
  \<open>summarize\<close> returns the result of attempt \<open>n\<close>; it fails only when the fifth attempt
  fails, and then with the error of the fifth attempt.
\<close>

theorem summarize_retries_every_failure:
  assumes "apiKey \<noteq> []" and "1 \<le> n" and "n \<le> 5"
    and "\<forall>k. 1 \<le> k \<and> k < n \<longrightarrow> \<not> is_Return (summarize_try k (remote k))"
  shows "(summarize_try n (remote n) = Return s \<longrightarrow>
           summarize apiKey remote =
             (Inr s, concat (map (attempt_events remote) [1..<n]) @ [HfRequest n (30000 * n)]))
       \<and> (n = 5 \<and> summarize_try n (remote n) = Throw e \<longrightarrow>
           summarize apiKey remote =
             (Inl (as_Error e),
              concat (map (attempt_events remote) [1..<n]) @ [HfRequest n (30000 * n)]))
       \<and> (n < 5 \<and> \<not> is_Return (summarize_try n (remote n)) \<longrightarrow>
           HfRequest (Suc n) (30000 * Suc n) \<in> set (snd (summarize apiKey remote)))"
proof -
  have n: "n \<le> maxRetries" using assms(3) by (simp add: maxRetries_def)
  have skip: "summarize apiKey remote =
     (fst (summarize_loop remote n None),
      concat (map (attempt_events remote) [1..<n]) @ snd (summarize_loop remote n None))"
    unfolding summarize_with_key [OF assms(1)]
    by (rule loop_skip_failures [OF n assms(2)]) (use assms(4) in simp)
  have a: "summarize apiKey remote =
             (Inr s, concat (map (attempt_events remote) [1..<n]) @ [HfRequest n (30000 * n)])"
    if "summarize_try n (remote n) = Return s"
    using loop_Return [where remote=remote and a=n, OF n that, of None] by (simp add: skip)
  have b: "summarize apiKey remote =
             (Inl (as_Error e),
              concat (map (attempt_events remote) [1..<n]) @ [HfRequest n (30000 * n)])"
    if "n = 5" "summarize_try n (remote n) = Throw e"
    using that loop_last_Throw [of remote e None] by (simp add: skip maxRetries_def)
  have c: "HfRequest (Suc n) (30000 * Suc n) \<in> set (snd (summarize apiKey remote))"
    if "n < 5" "\<not> is_Return (summarize_try n (remote n))"
  proof -
    have lt: "n < maxRetries" using that(1) by (simp add: maxRetries_def)
    then have "Suc n \<le> maxRetries" by simp
    from loop_head [OF this, of remote None] obtain rest where
      "snd (summarize_loop remote (Suc n) None) = HfRequest (Suc n) (30000 * Suc n) # rest"
      by blast
    then show ?thesis
      by (simp add: skip loop_retry_None [where remote=remote and a=n, OF lt that(2)])
  qed
  from a b c show ?thesis by blast
qed

text \<open>
  Claim C2 as stated fails: with HTTP 500 on attempt 1 and a summary on attempt 2,
  \<open>summarize\<close> does not fail on attempt 1 with the error of the 500 response; it issues a
  second request and returns its summary.
\<close>

theorem summarize_non504_error_is_retried:
  "summarize_try 1 (remote_500_then_ok 1) =
     Throw (Error (js ''Hugging Face API error: 500 - Internal Server Error''))
   \<and> summarize demo_apiKey remote_500_then_ok =
       (Inr (js ''Flooding displaced thousands.''), [HfRequest 1 30000, HfRequest 2 60000])"
proof -
  have k: "demo_apiKey \<noteq> []" by (simp add: demo_apiKey_def js_def)
  have t1: "summarize_try 1 (remote_500_then_ok 1) =
     Throw (Error (js ''Hugging Face API error: 500 - Internal Server Error''))"
    by (simp add: summarize_try_def remote_500_then_ok_def toString10_def digit_char_def js_def)
  have t2: "summarize_try 2 (remote_500_then_ok 2) = Return (js ''Flooding displaced thousands.'')"
    by (simp add: summarize_try_def remote_500_then_ok_def truthy_def js_def)
  have l2: "summarize_loop remote_500_then_ok (Suc (Suc 0)) None =
      (Inr (js ''Flooding displaced thousands.''), [HfRequest 2 60000])"
    using loop_Return [of 2 remote_500_then_ok _ None] t2
    by (simp add: maxRetries_def numeral_2_eq_2)
  have nr: "\<not> is_Return (summarize_try 1 (remote_500_then_ok 1))" using t1 by simp
  have lt: "1 < maxRetries" by (simp add: maxRetries_def)
  from loop_retry_None [where remote=remote_500_then_ok and a=1 and le=None, OF lt nr]
  have l1: "summarize_loop remote_500_then_ok 1 None =
      (Inr (js ''Flooding displaced thousands.''), [HfRequest 1 30000, HfRequest 2 60000])"
    by (simp add: l2 attempt_events_def is_504_def is_client_timeout_def
          remote_500_then_ok_def)
  from t1 l1 show ?thesis by (simp add: summarize_with_key [OF k])
qed

theorem summarize_retries_every_failure_witness:
  "demo_apiKey \<noteq> [] \<and> (1::nat) \<le> 2 \<and> (2::nat) \<le> 5
   \<and> \<not> is_Return (summarize_try 1 (remote_500_then_ok 1))
   \<and> summarize_try 2 (remote_500_then_ok 2) = Return (js ''Flooding displaced thousands.'')
   \<and> summarize demo_apiKey remote_500_then_ok =
       (Inr (js ''Flooding displaced thousands.''),
        concat (map (attempt_events remote_500_then_ok) [1..<2]) @ [HfRequest 2 (30000 * 2)])
   \<and> \<not> is_Return (summarize_try 1 (remote_always_500 1))
   \<and> \<not> is_Return (summarize_try 2 (remote_always_500 2))
   \<and> \<not> is_Return (summarize_try 3 (remote_always_500 3))
   \<and> \<not> is_Return (summarize_try 4 (remote_always_500 4))
   \<and> summarize_try 5 (remote_always_500 5) =
       Throw (Error (js ''Hugging Face API error: 500 - Internal Server Error''))
   \<and> summarize demo_apiKey remote_always_500 =
       (Inl (Error (js ''Hugging Face API error: 500 - Internal Server Error'')),
        concat (map (attempt_events remote_always_500) [1..<5]) @ [HfRequest 5 (30000 * 5)])
   \<and> (1::nat) < 5
   \<and> HfRequest (Suc 1) (30000 * Suc 1) \<in> set (snd (summarize demo_apiKey remote_always_500))"
proof -
  have k: "demo_apiKey \<noteq> []" by (simp add: demo_apiKey_def js_def)
  have t1: "\<not> is_Return (summarize_try 1 (remote_500_then_ok 1))"
    by (simp add: summarize_try_def remote_500_then_ok_def)
  have f: "\<forall>k. 1 \<le> k \<and> k < 2 \<longrightarrow> \<not> is_Return (summarize_try k (remote_500_then_ok k))"
  proof (intro allI impI)
    fix k :: nat assume "1 \<le> k \<and> k < 2"
    then have "k = 1" by auto
    with t1 show "\<not> is_Return (summarize_try k (remote_500_then_ok k))" by simp
  qed
  have t2: "summarize_try 2 (remote_500_then_ok 2) = Return (js ''Flooding displaced thousands.'')"
    by (simp add: summarize_try_def remote_500_then_ok_def truthy_def js_def)
  have le12: "(1::nat) \<le> 2" and le25: "(2::nat) \<le> 5" by simp_all
  from summarize_retries_every_failure
         [OF k le12 le25 f, of "js ''Flooding displaced thousands.''"] t2
  have r1: "summarize demo_apiKey remote_500_then_ok =
       (Inr (js ''Flooding displaced thousands.''),
        concat (map (attempt_events remote_500_then_ok) [1..<2]) @ [HfRequest 2 (30000 * 2)])"
    by blast
  have g: "\<forall>k. 1 \<le> k \<and> k < 5 \<longrightarrow> \<not> is_Return (summarize_try k (remote_always_500 k))"
    by (simp add: summarize_try_def remote_always_500_def)
  have t5: "summarize_try 5 (remote_always_500 5) =
       Throw (Error (js ''Hugging Face API error: 500 - Internal Server Error''))"
    by (simp add: summarize_try_def remote_always_500_def toString10_def digit_char_def js_def)
  have le15: "(1::nat) \<le> 5" and le55: "(5::nat) \<le> 5" by simp_all
  from summarize_retries_every_failure
         [OF k le15 le55 g, of _ "Error (js ''Hugging Face API error: 500 - Internal Server Error'')"]
       t5
  have r2: "summarize demo_apiKey remote_always_500 =
       (Inl (as_Error (Error (js ''Hugging Face API error: 500 - Internal Server Error''))),
        concat (map (attempt_events remote_always_500) [1..<5]) @ [HfRequest 5 (30000 * 5)])"
    by blast
  have ae: "as_Error (Error m) = Error m" for m by (simp add: as_Error_def Error_def)
  have g0: "\<forall>k. 1 \<le> k \<and> k < 1 \<longrightarrow> \<not> is_Return (summarize_try k (remote_always_500 k))"
    by simp
  have lt15: "(1::nat) < 5" and le11: "(1::nat) \<le> 1" by simp_all
  have n1: "\<not> is_Return (summarize_try 1 (remote_always_500 1))"
    by (simp add: summarize_try_def remote_always_500_def)
  from summarize_retries_every_failure [OF k le11 le15 g0] lt15 n1
  have r3: "HfRequest (Suc 1) (30000 * Suc 1) \<in> set (snd (summarize demo_apiKey remote_always_500))"
    by blast
  have g': "\<not> is_Return (summarize_try k (remote_always_500 k))" for k
    by (simp add: summarize_try_def remote_always_500_def)
  from k le12 le25 t1 t2 r1 g' t5 r2 [unfolded ae] lt15 r3 show ?thesis by blast
qed

section \<open>Running the orchestrator\<close>

lemma io_bind_Inr: "fst m = Inr x \<Longrightarrow> io_bind m f = (fst (f x), snd m @ snd (f x))"
  by (cases m) (simp add: io_bind_def split: prod.splits)

lemma io_bind_Inl: "fst m = Inl e \<Longrightarrow> io_bind m f = (Inl e, snd m)"
  by (cases m) (simp add: io_bind_def)

lemma updateJobStatus_ok:
  "st_updateJobStatus E jobId st err progress = None \<Longrightarrow>
   updateJobStatus E jobId st err progress = (Inr (), [UpdateJobStatus jobId st err progress])"
  by (simp add: updateJobStatus_def emit_def)

lemma createArticle_ok:
  "st_createArticle E row = Inr stored \<Longrightarrow> createArticle E row = (Inr stored, [CreateArticle row])"
  by (simp add: createArticle_def)

lemma createSummary_ok:
  "st_createSummary E row = Inr stored \<Longrightarrow> createSummary E row = (Inr stored, [CreateSummary row])"
  by (simp add: createSummary_def)

lemma createAudio_ok:
  "st_createAudio E row = Inr stored \<Longrightarrow> createAudio E row = (Inr stored, [CreateAudio row])"
  by (simp add: createAudio_def)

lemma createVideo_ok:
  "st_createVideo E row = Inr stored \<Longrightarrow> createVideo E row = (Inr stored, [CreateVideo row])"
  by (simp add: createVideo_def)

lemma generateTTS_ok:
  "tts_remote E text language = HttpOk result \<Longrightarrow>
   generateTTS E text language = (Inr (tts_result_of result), [TtsRequest text language])"
  by (simp add: generateTTS_def io_bind_def emit_def ret_def)

lemma renderVideo_ok:
  "render_remote E request = HttpOk result \<Longrightarrow> truthy (rj_urlMp4 result) \<Longrightarrow>
   renderVideo E request = (Inr (render_result_of result), [RenderRequest request])"
  by (simp add: renderVideo_def io_bind_def emit_def ret_def)

lemma renderVideo_incomplete:
  "render_remote E request = HttpOk result \<Longrightarrow> \<not> truthy (rj_urlMp4 result) \<Longrightarrow>
   renderVideo E request =
     (Inl (Error (js ''Video service did not return urlMp4'')), [RenderRequest request])"
  by (simp add: renderVideo_def io_bind_def emit_def throw_def)

lemma error_message_Error [simp]: "error_message (Error m) = m"
  by (simp add: error_message_def Error_def)

lemma processJob_caught:
  "processJob_try E jobId = (Inl error, tr) \<Longrightarrow>
   st_updateJobStatus E jobId Failed (Some (error_message error)) None = None \<Longrightarrow>
   processJob E jobId =
     (Inr (), tr @ [UpdateJobStatus jobId Failed (Some (error_message error)) None])"
  by (simp add: processJob_def updateJobStatus_ok)

lemma processJob_returned:
  "processJob_try E jobId = (Inr u, tr) \<Longrightarrow> processJob E jobId = (Inr u, tr)"
  by (simp add: processJob_def)

text \<open>
  Claim C5. When the run reaches the article source (the first status write succeeded and
  the job was found) and the source returns an empty list, the run issues that one fetch
  and no second one, persists no Article, Summary, Audio or Video, and ends by writing the
  status \<open>failed\<close> with the message "No articles found" (given that the store accepts
  this last write).
\<close>

theorem processJob_no_articles:
  assumes "st_updateJobStatus E jobId Running None (Some 10) = None"
    and "st_getJobById E jobId = Inr (Some job)"
    and "gnews_fetchArticles E (job_topic job) (job_language job) = Inr []"
    and "st_updateJobStatus E jobId Failed (Some (js ''No articles found'')) None = None"
  shows "processJob E jobId =
           (Inr (), [UpdateJobStatus jobId Running None (Some 10),
                     FetchArticles (job_topic job) (job_language job),
                     UpdateJobStatus jobId Failed (Some (js ''No articles found'')) None])
       \<and> final_status (snd (processJob E jobId)) = Some Failed
       \<and> final_error (snd (processJob E jobId)) = Some (js ''No articles found'')
       \<and> length (filter is_fetch (snd (processJob E jobId))) = 1
       \<and> artifacts (snd (processJob E jobId)) = []"
proof -
  have t: "processJob_try E jobId =
      (Inl (Error (js ''No articles found'')),
       [UpdateJobStatus jobId Running None (Some 10),
        FetchArticles (job_topic job) (job_language job)])"
    unfolding processJob_try_def
    by (simp add: io_bind_def updateJobStatus_ok assms getJobById_def fetchArticles_def throw_def)
  have p: "processJob E jobId =
           (Inr (), [UpdateJobStatus jobId Running None (Some 10),
                     FetchArticles (job_topic job) (job_language job),
                     UpdateJobStatus jobId Failed (Some (js ''No articles found'')) None])"
    using processJob_caught [OF t] assms(4) by simp
  show ?thesis unfolding p
    by (simp add: final_status_def final_error_def status_writes_def artifacts_def
        List.map_filter_def)
qed


lemma loop_events:
  "a \<le> maxRetries \<Longrightarrow> ev \<in> set (snd (summarize_loop remote a le)) \<Longrightarrow> is_summarizer_event ev"
proof (induction a arbitrary: le rule: inc_induct)
  case base
  then show ?case by (auto simp: loop_last)
next
  case (step m)
  show ?case
  proof (cases "is_Return (summarize_try m (remote m))")
    case True
    then obtain s where "summarize_try m (remote m) = Return s"
      by (cases "summarize_try m (remote m)") auto
    with step(1,2,4) show ?thesis by (auto simp: loop_Return)
  next
    case False
    from step(4) have "ev \<in> set (attempt_events remote m)
        \<or> ev \<in> set (snd (summarize_loop remote (Suc m) None))"
      by (simp add: loop_retry_None [where remote=remote and a=m, OF step(2) False])
    then show ?thesis
      using step(3) by (auto simp: attempt_events_def split: if_splits)
  qed
qed

lemma summarize_events:
  "ev \<in> set (snd (summarize apiKey remote)) \<Longrightarrow> is_summarizer_event ev"
  using loop_events [OF one_le_maxRetries, of ev remote None]
  by (cases "apiKey = []") (simp_all add: summarize_def throw_def)

lemma summarizer_events_invisible:
  assumes "\<forall>ev \<in> set tr. is_summarizer_event ev"
  shows "List.map_filter status_write tr = []"
    and "List.map_filter progress_write tr = []"
    and "List.map_filter error_write tr = []"
    and "filter is_artifact tr = []"
    and "filter is_publish tr = []"
    and "filter is_fetch tr = []"
  using assms
  by (induction tr; (simp add: List.map_filter_simps, (case_tac a; simp add: List.map_filter_simps)?))+


lemma map_filter_append:
  "List.map_filter f (xs @ ys) = List.map_filter f xs @ List.map_filter f ys"
  by (simp add: List.map_filter_def)

lemma processJob_try_pipeline:
  assumes u10: "st_updateJobStatus E jobId Running None (Some 10) = None"
    and job: "st_getJobById E jobId = Inr (Some job)"
    and fetch: "gnews_fetchArticles E (job_topic job) (job_language job) = Inr (first # rest)"
    and art: "st_createArticle E (article_row jobId first) = Inr article"
    and u25: "st_updateJobStatus E jobId Running None (Some 25) = None"
    and summ: "fst (summarize (hf_apiKey E)
                 (hf_remote E (summary_input article) (job_targetLength job))) = Inr summaryText"
    and sum: "st_createSummary E (summary_row jobId job summaryText) = Inr summary"
    and u50: "st_updateJobStatus E jobId Running None (Some 50) = None"
    and tts: "tts_remote E (s_text summary) (job_language job) = HttpOk tts"
    and aud: "st_createAudio E (audio_row jobId (tts_result_of tts)) = Inr audio"
    and u75: "st_updateJobStatus E jobId Running None (Some 75) = None"
  shows "\<exists>hf. (\<forall>ev \<in> set hf. is_summarizer_event ev) \<and>
     processJob_try E jobId =
       (case io_bind (renderVideo E (render_request article summary (tts_result_of tts)))
               (\<lambda>videoResult.
                  io_bind (createVideo E (video_row jobId videoResult)) (\<lambda>video.
                  io_bind (updateJobStatus E jobId Completed None (Some 100)) (\<lambda>_.
                  if job_autoPublish job
                  then io_bind (publishVideo E job video) (\<lambda>_. ret ())
                  else ret ()))) of
          (r, tr) \<Rightarrow>
            (r, [UpdateJobStatus jobId Running None (Some 10),
                 FetchArticles (job_topic job) (job_language job),
                 CreateArticle (article_row jobId first),
                 UpdateJobStatus jobId Running None (Some 25)]
                @ hf @
                [CreateSummary (summary_row jobId job summaryText),
                 UpdateJobStatus jobId Running None (Some 50),
                 TtsRequest (s_text summary) (job_language job),
                 CreateAudio (audio_row jobId (tts_result_of tts)),
                 UpdateJobStatus jobId Running None (Some 75)] @ tr))"
proof -
  define hf where "hf = snd (summarize (hf_apiKey E)
                 (hf_remote E (summary_input article) (job_targetLength job)))"
  have sm: "summarize (hf_apiKey E)
              (hf_remote E (summary_input article) (job_targetLength job)) = (Inr summaryText, hf)"
    using summ by (simp add: hf_def prod_eq_iff)
  have inv: "\<forall>ev \<in> set hf. is_summarizer_event ev"
    unfolding hf_def using summarize_events by blast
  have "processJob_try E jobId =
       (case io_bind (renderVideo E (render_request article summary (tts_result_of tts)))
               (\<lambda>videoResult.
                  io_bind (createVideo E (video_row jobId videoResult)) (\<lambda>video.
                  io_bind (updateJobStatus E jobId Completed None (Some 100)) (\<lambda>_.
                  if job_autoPublish job
                  then io_bind (publishVideo E job video) (\<lambda>_. ret ())
                  else ret ()))) of
          (r, tr) \<Rightarrow>
            (r, [UpdateJobStatus jobId Running None (Some 10),
                 FetchArticles (job_topic job) (job_language job),
                 CreateArticle (article_row jobId first),
                 UpdateJobStatus jobId Running None (Some 25)]
                @ hf @
                [CreateSummary (summary_row jobId job summaryText),
                 UpdateJobStatus jobId Running None (Some 50),
                 TtsRequest (s_text summary) (job_language job),
                 CreateAudio (audio_row jobId (tts_result_of tts)),
                 UpdateJobStatus jobId Running None (Some 75)] @ tr))"
    unfolding processJob_try_def
    apply (subst io_bind_def, simp add: updateJobStatus_ok u10)
    apply (subst io_bind_def, simp add: getJobById_def job)
    apply (subst io_bind_def, simp add: fetchArticles_def fetch)
    apply (subst io_bind_def, simp add: createArticle_ok art)
    apply (subst io_bind_def, simp add: updateJobStatus_ok u25)
    apply (subst io_bind_def, simp add: sm)
    apply (subst io_bind_def, simp add: createSummary_ok sum)
    apply (subst io_bind_def, simp add: updateJobStatus_ok u50)
    apply (subst io_bind_def, simp add: generateTTS_ok tts)
    apply (subst io_bind_def, simp add: createAudio_ok aud)
    apply (subst io_bind_def, simp add: updateJobStatus_ok u75)
    apply (simp split: prod.splits)
    done
  with inv show ?thesis by blast
qed

text \<open>
  Claim C4. For a job with auto-publish off, when the article fetch returns a non-empty
  list, \<open>summarize\<close> returns a text, the speech and render services answer well (the
  render body carrying \<open>urlMp4\<close>) and every store write succeeds, \<open>processJob\<close> returns
  normally with final status \<open>completed\<close> and final progress 100; the artifacts persisted
  are exactly one Article, one Summary, one Audio and one Video, in that order, each under
  the job's id; and no publish call is made.
\<close>

theorem processJob_all_succeed:
  assumes u10: "st_updateJobStatus E jobId Running None (Some 10) = None"
    and job: "st_getJobById E jobId = Inr (Some job)"
    and nopub: "\<not> job_autoPublish job"
    and fetch: "gnews_fetchArticles E (job_topic job) (job_language job) = Inr (first # rest)"
    and art: "st_createArticle E (article_row jobId first) = Inr article"
    and u25: "st_updateJobStatus E jobId Running None (Some 25) = None"
    and summ: "fst (summarize (hf_apiKey E)
                 (hf_remote E (summary_input article) (job_targetLength job))) = Inr summaryText"
    and sum: "st_createSummary E (summary_row jobId job summaryText) = Inr summary"
    and u50: "st_updateJobStatus E jobId Running None (Some 50) = None"
    and tts: "tts_remote E (s_text summary) (job_language job) = HttpOk tts"
    and aud: "st_createAudio E (audio_row jobId (tts_result_of tts)) = Inr audio"
    and u75: "st_updateJobStatus E jobId Running None (Some 75) = None"
    and rend: "render_remote E (render_request article summary (tts_result_of tts)) = HttpOk rendered"
    and mp4: "truthy (rj_urlMp4 rendered)"
    and vid: "st_createVideo E (video_row jobId (render_result_of rendered)) = Inr video"
    and u100: "st_updateJobStatus E jobId Completed None (Some 100) = None"
  shows "fst (processJob E jobId) = Inr ()
       \<and> final_status (snd (processJob E jobId)) = Some Completed
       \<and> final_progress (snd (processJob E jobId)) = Some 100
       \<and> artifacts (snd (processJob E jobId)) =
           [CreateArticle (article_row jobId first),
            CreateSummary (summary_row jobId job summaryText),
            CreateAudio (audio_row jobId (tts_result_of tts)),
            CreateVideo (video_row jobId (render_result_of rendered))]
       \<and> map artifact_jobId (artifacts (snd (processJob E jobId))) =
           [Some jobId, Some jobId, Some jobId, Some jobId]
       \<and> filter is_publish (snd (processJob E jobId)) = []"
proof -
  from processJob_try_pipeline [OF u10 job fetch art u25 summ sum u50 tts aud u75]
  obtain hf where inv: "\<forall>ev \<in> set hf. is_summarizer_event ev"
    and t: "processJob_try E jobId =
      (Inr (),
       [UpdateJobStatus jobId Running None (Some 10),
        FetchArticles (job_topic job) (job_language job),
        CreateArticle (article_row jobId first),
        UpdateJobStatus jobId Running None (Some 25)]
       @ hf @
       [CreateSummary (summary_row jobId job summaryText),
        UpdateJobStatus jobId Running None (Some 50),
        TtsRequest (s_text summary) (job_language job),
        CreateAudio (audio_row jobId (tts_result_of tts)),
        UpdateJobStatus jobId Running None (Some 75),
        RenderRequest (render_request article summary (tts_result_of tts)),
        CreateVideo (video_row jobId (render_result_of rendered)),
        UpdateJobStatus jobId Completed None (Some 100)])"
    by (auto simp: io_bind_def renderVideo_ok createVideo_ok updateJobStatus_ok ret_def
        rend mp4 vid u100 nopub)
  note hid = summarizer_events_invisible [OF inv]
  note p = processJob_returned [OF t]
  have a: "fst (processJob E jobId) = Inr ()" by (simp add: p)
  have b: "final_status (snd (processJob E jobId)) = Some Completed"
    by (simp add: p final_status_def status_writes_def map_filter_append hid)
  have c: "final_progress (snd (processJob E jobId)) = Some 100"
    by (simp add: p final_progress_def progress_writes_def map_filter_append hid)
  have d: "artifacts (snd (processJob E jobId)) =
           [CreateArticle (article_row jobId first),
            CreateSummary (summary_row jobId job summaryText),
            CreateAudio (audio_row jobId (tts_result_of tts)),
            CreateVideo (video_row jobId (render_result_of rendered))]"
    by (simp add: p artifacts_def hid)
  have e: "map artifact_jobId (artifacts (snd (processJob E jobId))) =
           [Some jobId, Some jobId, Some jobId, Some jobId]"
    unfolding d by (simp add: article_row_def summary_row_def audio_row_def video_row_def)
  have f: "filter is_publish (snd (processJob E jobId)) = []"
    by (simp add: p hid)
  from a b c d e f show ?thesis by blast
qed

lemma demo_apiKey_nonempty: "demo_apiKey \<noteq> []"
  by (simp add: demo_apiKey_def js_def)

lemma summarize_remote_ok:
  "summarize demo_apiKey remote_ok = (Inr (js ''Rivers rose.''), [HfRequest 1 30000])"
proof -
  have "summarize_try 1 (remote_ok 1) = Return (js ''Rivers rose.'')"
    by (simp add: summarize_try_def remote_ok_def truthy_def js_def)
  from loop_Return [where remote=remote_ok and a=1, OF one_le_maxRetries this, of None]
  show ?thesis by (simp add: summarize_with_key [OF demo_apiKey_nonempty])
qed

lemma env_ok_fields:
  "st_updateJobStatus (env_ok ap) jobId st err progress = None"
  "st_getJobById (env_ok ap) jobId = Inr (Some (demo_job ap))"
  "st_createArticle (env_ok ap) a = Inr a"
  "st_createSummary (env_ok ap) s = Inr s"
  "st_createAudio (env_ok ap) au = Inr au"
  "st_createVideo (env_ok ap) v = Inr v"
  "gnews_fetchArticles (env_ok ap) topic language = Inr [demo_gnews_article]"
  "hf_apiKey (env_ok ap) = demo_apiKey"
  "hf_remote (env_ok ap) text maxLength = remote_ok"
  "tts_remote (env_ok ap) text language = HttpOk demo_tts_json"
  "render_remote (env_ok ap) request = HttpOk demo_render_json"
  "yt_uploadVideo (env_ok ap) videoUrl title description tags = Inr (js ''yt-42'')"
  by (simp_all add: env_ok_def)

lemma demo_mp4: "truthy (rj_urlMp4 demo_render_json)"
  by (simp add: demo_render_json_def truthy_def js_def)

theorem processJob_all_succeed_witness:
  "st_getJobById (env_ok False) demo_jobId = Inr (Some (demo_job False))
   \<and> \<not> job_autoPublish (demo_job False)
   \<and> gnews_fetchArticles (env_ok False) (js ''climate'') (js ''en'') = Inr [demo_gnews_article]
   \<and> truthy (rj_urlMp4 demo_render_json)
   \<and> fst (processJob (env_ok False) demo_jobId) = Inr ()
   \<and> final_status (snd (processJob (env_ok False) demo_jobId)) = Some Completed
   \<and> final_progress (snd (processJob (env_ok False) demo_jobId)) = Some 100
   \<and> artifacts (snd (processJob (env_ok False) demo_jobId)) =
       [CreateArticle (article_row demo_jobId demo_gnews_article),
        CreateSummary (summary_row demo_jobId (demo_job False) (js ''Rivers rose.'')),
        CreateAudio (audio_row demo_jobId (tts_result_of demo_tts_json)),
        CreateVideo (video_row demo_jobId (render_result_of demo_render_json))]
   \<and> filter is_publish (snd (processJob (env_ok False) demo_jobId)) = []"
proof -
  have np: "\<not> job_autoPublish (demo_job False)" by (simp add: demo_job_def)
  have f: "gnews_fetchArticles (env_ok False) (job_topic (demo_job False))
             (job_language (demo_job False)) = Inr (demo_gnews_article # [])"
    by (simp add: env_ok_fields)
  have f': "gnews_fetchArticles (env_ok False) (js ''climate'') (js ''en'') = Inr [demo_gnews_article]"
    by (simp add: env_ok_fields)
  have s: "fst (summarize (hf_apiKey (env_ok False))
             (hf_remote (env_ok False)
                (summary_input (article_row demo_jobId demo_gnews_article))
                (job_targetLength (demo_job False)))) = Inr (js ''Rivers rose.'')"
    by (simp add: env_ok_fields summarize_remote_ok)
  from processJob_all_succeed
    [where E="env_ok False" and jobId=demo_jobId and job="demo_job False"
       and first=demo_gnews_article and rest="[]"
       and article="article_row demo_jobId demo_gnews_article"
       and summaryText="js ''Rivers rose.''"
       and summary="summary_row demo_jobId (demo_job False) (js ''Rivers rose.'')"
       and tts=demo_tts_json
       and audio="audio_row demo_jobId (tts_result_of demo_tts_json)"
       and rendered=demo_render_json
       and video="video_row demo_jobId (render_result_of demo_render_json)",
     OF env_ok_fields(1) env_ok_fields(2) np f env_ok_fields(3) env_ok_fields(1) s
        env_ok_fields(4) env_ok_fields(1) env_ok_fields(10) env_ok_fields(5)
        env_ok_fields(1) env_ok_fields(11) demo_mp4 env_ok_fields(6) env_ok_fields(1)]
  show ?thesis using np f' demo_mp4 env_ok_fields(2) [of False demo_jobId] by blast
qed

theorem processJob_no_articles_witness:
  "st_getJobById env_no_articles demo_jobId = Inr (Some (demo_job False))
   \<and> gnews_fetchArticles env_no_articles (js ''climate'') (js ''en'') = Inr []
   \<and> processJob env_no_articles demo_jobId =
       (Inr (), [UpdateJobStatus demo_jobId Running None (Some 10),
                 FetchArticles (js ''climate'') (js ''en''),
                 UpdateJobStatus demo_jobId Failed (Some (js ''No articles found'')) None])
   \<and> final_status (snd (processJob env_no_articles demo_jobId)) = Some Failed
   \<and> artifacts (snd (processJob env_no_articles demo_jobId)) = []"
proof -
  have u: "st_updateJobStatus env_no_articles jobId st err progress = None"
    for jobId st err progress
    by (simp add: env_no_articles_def env_ok_fields)
  have j: "st_getJobById env_no_articles demo_jobId = Inr (Some (demo_job False))"
    by (simp add: env_no_articles_def env_ok_fields)
  have f: "gnews_fetchArticles env_no_articles (job_topic (demo_job False))
             (job_language (demo_job False)) = Inr []"
    by (simp add: env_no_articles_def)
  have f': "gnews_fetchArticles env_no_articles (js ''climate'') (js ''en'') = Inr []"
    by (simp add: env_no_articles_def)
  have tl: "job_topic (demo_job False) = js ''climate''" "job_language (demo_job False) = js ''en''"
    by (simp_all add: demo_job_def)
  from processJob_no_articles [OF u j f u] j f'
  show ?thesis unfolding tl by blast
qed


text \<open>
  Claim C6. When the stages before rendering have succeeded and the render service answers
  with an \<open>ok\<close> response whose body has no (truthy) \<open>urlMp4\<close>, \<open>renderVideo\<close> throws
  instead of returning, and the run ends with status \<open>failed\<close> and the message
  "Video service did not return urlMp4" (given that the store accepts this last write);
  the Article, Summary and Audio written before stay, and no Video is written.
\<close>

theorem processJob_render_incomplete:
  assumes u10: "st_updateJobStatus E jobId Running None (Some 10) = None"
    and job: "st_getJobById E jobId = Inr (Some job)"
    and fetch: "gnews_fetchArticles E (job_topic job) (job_language job) = Inr (first # rest)"
    and art: "st_createArticle E (article_row jobId first) = Inr article"
    and u25: "st_updateJobStatus E jobId Running None (Some 25) = None"
    and summ: "fst (summarize (hf_apiKey E)
                 (hf_remote E (summary_input article) (job_targetLength job))) = Inr summaryText"
    and sum: "st_createSummary E (summary_row jobId job summaryText) = Inr summary"
    and u50: "st_updateJobStatus E jobId Running None (Some 50) = None"
    and tts: "tts_remote E (s_text summary) (job_language job) = HttpOk tts"
    and aud: "st_createAudio E (audio_row jobId (tts_result_of tts)) = Inr audio"
    and u75: "st_updateJobStatus E jobId Running None (Some 75) = None"
    and rend: "render_remote E (render_request article summary (tts_result_of tts)) = HttpOk rendered"
    and nomp4: "\<not> truthy (rj_urlMp4 rendered)"
    and ufail: "st_updateJobStatus E jobId Failed
                  (Some (js ''Video service did not return urlMp4'')) None = None"
  shows "renderVideo E (render_request article summary (tts_result_of tts)) =
           (Inl (Error (js ''Video service did not return urlMp4'')),
            [RenderRequest (render_request article summary (tts_result_of tts))])
       \<and> fst (processJob E jobId) = Inr ()
       \<and> final_status (snd (processJob E jobId)) = Some Failed
       \<and> final_error (snd (processJob E jobId)) =
           Some (js ''Video service did not return urlMp4'')
       \<and> artifacts (snd (processJob E jobId)) =
           [CreateArticle (article_row jobId first),
            CreateSummary (summary_row jobId job summaryText),
            CreateAudio (audio_row jobId (tts_result_of tts))]"
proof -
  note rv = renderVideo_incomplete [OF rend nomp4]
  from processJob_try_pipeline [OF u10 job fetch art u25 summ sum u50 tts aud u75]
  obtain hf where inv: "\<forall>ev \<in> set hf. is_summarizer_event ev"
    and t: "processJob_try E jobId =
      (Inl (Error (js ''Video service did not return urlMp4'')),
       [UpdateJobStatus jobId Running None (Some 10),
        FetchArticles (job_topic job) (job_language job),
        CreateArticle (article_row jobId first),
        UpdateJobStatus jobId Running None (Some 25)]
       @ hf @
       [CreateSummary (summary_row jobId job summaryText),
        UpdateJobStatus jobId Running None (Some 50),
        TtsRequest (s_text summary) (job_language job),
        CreateAudio (audio_row jobId (tts_result_of tts)),
        UpdateJobStatus jobId Running None (Some 75),
        RenderRequest (render_request article summary (tts_result_of tts))])"
    by (auto simp: io_bind_def rv)
  note hid = summarizer_events_invisible [OF inv]
  have uf: "st_updateJobStatus E jobId Failed
      (Some (error_message (Error (js ''Video service did not return urlMp4'')))) None = None"
    using ufail by simp
  note p = processJob_caught [OF t uf]
  have a: "fst (processJob E jobId) = Inr ()" by (simp add: p)
  have b: "final_status (snd (processJob E jobId)) = Some Failed"
    by (simp add: p final_status_def status_writes_def map_filter_append hid)
  have c: "final_error (snd (processJob E jobId)) =
           Some (js ''Video service did not return urlMp4'')"
    by (simp add: p final_error_def map_filter_append hid)
  have d: "artifacts (snd (processJob E jobId)) =
           [CreateArticle (article_row jobId first),
            CreateSummary (summary_row jobId job summaryText),
            CreateAudio (audio_row jobId (tts_result_of tts))]"
    by (simp add: p artifacts_def hid)
  from rv a b c d show ?thesis by blast
qed

lemma processJob_publish_throws:
  assumes u10: "st_updateJobStatus E jobId Running None (Some 10) = None"
    and job: "st_getJobById E jobId = Inr (Some job)"
    and pub: "job_autoPublish job"
    and fetch: "gnews_fetchArticles E (job_topic job) (job_language job) = Inr (first # rest)"
    and art: "st_createArticle E (article_row jobId first) = Inr article"
    and u25: "st_updateJobStatus E jobId Running None (Some 25) = None"
    and summ: "fst (summarize (hf_apiKey E)
                 (hf_remote E (summary_input article) (job_targetLength job))) = Inr summaryText"
    and sum: "st_createSummary E (summary_row jobId job summaryText) = Inr summary"
    and u50: "st_updateJobStatus E jobId Running None (Some 50) = None"
    and tts: "tts_remote E (s_text summary) (job_language job) = HttpOk tts"
    and aud: "st_createAudio E (audio_row jobId (tts_result_of tts)) = Inr audio"
    and u75: "st_updateJobStatus E jobId Running None (Some 75) = None"
    and rend: "render_remote E (render_request article summary (tts_result_of tts)) = HttpOk rendered"
    and mp4: "truthy (rj_urlMp4 rendered)"
    and vid: "st_createVideo E (video_row jobId (render_result_of rendered)) = Inr video"
    and u100: "st_updateJobStatus E jobId Completed None (Some 100) = None"
    and up: "fst (publishVideo E job video) = Inl error"
    and ufail: "st_updateJobStatus E jobId Failed (Some (error_message error)) None = None"
  shows "status_writes (snd (processJob E jobId)) =
           [Running, Running, Running, Running, Completed, Failed]"
    and "progress_writes (snd (processJob E jobId)) = [10, 25, 50, 75, 100]"
    and "final_status (snd (processJob E jobId)) = Some Failed"
    and "final_error (snd (processJob E jobId)) = Some (error_message error)"
    and "artifacts (snd (processJob E jobId)) =
           [CreateArticle (article_row jobId first),
            CreateSummary (summary_row jobId job summaryText),
            CreateAudio (audio_row jobId (tts_result_of tts)),
            CreateVideo (video_row jobId (render_result_of rendered))]"
proof -
  obtain ptr where pv: "publishVideo E job video = (Inl error, ptr)"
    using up by (cases "publishVideo E job video") simp
  have pev: "\<forall>ev \<in> set ptr. is_publish ev"
    using pv by (auto simp: publishVideo_def uploadVideo_def io_bind_def ret_def Let_def
        split: sum.splits)
  have pst: "List.map_filter status_write ptr = []" "List.map_filter progress_write ptr = []"
    "List.map_filter error_write ptr = []" "filter is_artifact ptr = []"
    using pev by (induction ptr; (simp, (case_tac a; simp)?))+
  from processJob_try_pipeline [OF u10 job fetch art u25 summ sum u50 tts aud u75]
  obtain hf where inv: "\<forall>ev \<in> set hf. is_summarizer_event ev"
    and t: "processJob_try E jobId =
      (Inl error,
       [UpdateJobStatus jobId Running None (Some 10),
        FetchArticles (job_topic job) (job_language job),
        CreateArticle (article_row jobId first),
        UpdateJobStatus jobId Running None (Some 25)]
       @ hf @
       [CreateSummary (summary_row jobId job summaryText),
        UpdateJobStatus jobId Running None (Some 50),
        TtsRequest (s_text summary) (job_language job),
        CreateAudio (audio_row jobId (tts_result_of tts)),
        UpdateJobStatus jobId Running None (Some 75),
        RenderRequest (render_request article summary (tts_result_of tts)),
        CreateVideo (video_row jobId (render_result_of rendered)),
        UpdateJobStatus jobId Completed None (Some 100)] @ ptr)"
    by (auto simp: io_bind_def renderVideo_ok createVideo_ok updateJobStatus_ok
        rend mp4 vid u100 pub pv)
  note hid = summarizer_events_invisible [OF inv]
  note p = processJob_caught [OF t ufail]
  show "status_writes (snd (processJob E jobId)) =
           [Running, Running, Running, Running, Completed, Failed]"
    by (simp add: p status_writes_def map_filter_append hid pst)
  then show "final_status (snd (processJob E jobId)) = Some Failed"
    by (simp add: final_status_def)
  show "progress_writes (snd (processJob E jobId)) = [10, 25, 50, 75, 100]"
    by (simp add: p progress_writes_def map_filter_append hid pst)
  show "final_error (snd (processJob E jobId)) = Some (error_message error)"
    by (simp add: p final_error_def map_filter_append hid pst)
  show "artifacts (snd (processJob E jobId)) =
           [CreateArticle (article_row jobId first),
            CreateSummary (summary_row jobId job summaryText),
            CreateAudio (audio_row jobId (tts_result_of tts)),
            CreateVideo (video_row jobId (render_result_of rendered))]"
    by (simp add: p artifacts_def hid pst)
qed


lemma env_render_incomplete_fields:
  "st_updateJobStatus env_render_incomplete jobId st err progress = None"
  "st_getJobById env_render_incomplete jobId = Inr (Some (demo_job False))"
  "st_createArticle env_render_incomplete a = Inr a"
  "st_createSummary env_render_incomplete s = Inr s"
  "st_createAudio env_render_incomplete au = Inr au"
  "gnews_fetchArticles env_render_incomplete topic language = Inr [demo_gnews_article]"
  "hf_apiKey env_render_incomplete = demo_apiKey"
  "hf_remote env_render_incomplete text maxLength = remote_ok"
  "tts_remote env_render_incomplete text language = HttpOk demo_tts_json"
  "render_remote env_render_incomplete request = HttpOk (demo_render_json\<lparr>rj_urlMp4 := None\<rparr>)"
  by (simp_all add: env_render_incomplete_def env_ok_def)

lemma env_publish_fails_fields:
  "st_updateJobStatus env_publish_fails jobId st err progress = None"
  "st_getJobById env_publish_fails jobId = Inr (Some (demo_job True))"
  "st_createArticle env_publish_fails a = Inr a"
  "st_createSummary env_publish_fails s = Inr s"
  "st_createAudio env_publish_fails au = Inr au"
  "st_createVideo env_publish_fails v = Inr v"
  "gnews_fetchArticles env_publish_fails topic language = Inr [demo_gnews_article]"
  "hf_apiKey env_publish_fails = demo_apiKey"
  "hf_remote env_publish_fails text maxLength = remote_ok"
  "tts_remote env_publish_fails text language = HttpOk demo_tts_json"
  "render_remote env_publish_fails request = HttpOk demo_render_json"
  "yt_uploadVideo env_publish_fails videoUrl title description tags =
     Inl (Error (js ''quotaExceeded''))"
  by (simp_all add: env_publish_fails_def env_ok_def)

theorem processJob_render_incomplete_witness:
  "render_remote env_render_incomplete
     (render_request (article_row demo_jobId demo_gnews_article)
        (summary_row demo_jobId (demo_job False) (js ''Rivers rose.''))
        (tts_result_of demo_tts_json)) = HttpOk (demo_render_json\<lparr>rj_urlMp4 := None\<rparr>)
   \<and> \<not> truthy (rj_urlMp4 (demo_render_json\<lparr>rj_urlMp4 := None\<rparr>))
   \<and> fst (processJob env_render_incomplete demo_jobId) = Inr ()
   \<and> final_status (snd (processJob env_render_incomplete demo_jobId)) = Some Failed
   \<and> final_error (snd (processJob env_render_incomplete demo_jobId)) =
       Some (js ''Video service did not return urlMp4'')
   \<and> artifacts (snd (processJob env_render_incomplete demo_jobId)) =
       [CreateArticle (article_row demo_jobId demo_gnews_article),
        CreateSummary (summary_row demo_jobId (demo_job False) (js ''Rivers rose.'')),
        CreateAudio (audio_row demo_jobId (tts_result_of demo_tts_json))]"
proof -
  note F = env_render_incomplete_fields
  have f: "gnews_fetchArticles env_render_incomplete (job_topic (demo_job False))
             (job_language (demo_job False)) = Inr (demo_gnews_article # [])"
    by (simp add: F)
  have s: "fst (summarize (hf_apiKey env_render_incomplete)
             (hf_remote env_render_incomplete
                (summary_input (article_row demo_jobId demo_gnews_article))
                (job_targetLength (demo_job False)))) = Inr (js ''Rivers rose.'')"
    by (simp add: F summarize_remote_ok)
  have n: "\<not> truthy (rj_urlMp4 (demo_render_json\<lparr>rj_urlMp4 := None\<rparr>))"
    by (simp add: truthy_def)
  from processJob_render_incomplete
    [where E=env_render_incomplete and jobId=demo_jobId and job="demo_job False"
       and first=demo_gnews_article and rest="[]"
       and article="article_row demo_jobId demo_gnews_article"
       and summaryText="js ''Rivers rose.''"
       and summary="summary_row demo_jobId (demo_job False) (js ''Rivers rose.'')"
       and tts=demo_tts_json
       and audio="audio_row demo_jobId (tts_result_of demo_tts_json)"
       and rendered="demo_render_json\<lparr>rj_urlMp4 := None\<rparr>",
     OF F(1) F(2) f F(3) F(1) s F(4) F(1) F(9) F(5) F(1) F(10) n F(1)]
  show ?thesis using n F(10) by blast
qed

lemma publish_fails_run:
  "status_writes (snd (processJob env_publish_fails demo_jobId)) =
     [Running, Running, Running, Running, Completed, Failed]"
  "progress_writes (snd (processJob env_publish_fails demo_jobId)) = [10, 25, 50, 75, 100]"
  "final_status (snd (processJob env_publish_fails demo_jobId)) = Some Failed"
  "final_error (snd (processJob env_publish_fails demo_jobId)) = Some (js ''quotaExceeded'')"
  "artifacts (snd (processJob env_publish_fails demo_jobId)) =
     [CreateArticle (article_row demo_jobId demo_gnews_article),
      CreateSummary (summary_row demo_jobId (demo_job True) (js ''Rivers rose.'')),
      CreateAudio (audio_row demo_jobId (tts_result_of demo_tts_json)),
      CreateVideo (video_row demo_jobId (render_result_of demo_render_json))]"
proof -
  note F = env_publish_fails_fields
  have pub: "job_autoPublish (demo_job True)" by (simp add: demo_job_def)
  have f: "gnews_fetchArticles env_publish_fails (job_topic (demo_job True))
             (job_language (demo_job True)) = Inr (demo_gnews_article # [])"
    by (simp add: F)
  have s: "fst (summarize (hf_apiKey env_publish_fails)
             (hf_remote env_publish_fails
                (summary_input (article_row demo_jobId demo_gnews_article))
                (job_targetLength (demo_job True)))) = Inr (js ''Rivers rose.'')"
    by (simp add: F summarize_remote_ok)
  have up: "fst (publishVideo env_publish_fails (demo_job True)
              (video_row demo_jobId (render_result_of demo_render_json)))
            = Inl (Error (js ''quotaExceeded''))"
    by (simp add: publishVideo_def uploadVideo_def io_bind_def Let_def F)
  have uf: "st_updateJobStatus env_publish_fails demo_jobId Failed
              (Some (error_message (Error (js ''quotaExceeded'')))) None = None"
    by (rule F(1))
  note R = processJob_publish_throws
    [where E=env_publish_fails and jobId=demo_jobId and job="demo_job True"
       and first=demo_gnews_article and rest="[]"
       and article="article_row demo_jobId demo_gnews_article"
       and summaryText="js ''Rivers rose.''"
       and summary="summary_row demo_jobId (demo_job True) (js ''Rivers rose.'')"
       and tts=demo_tts_json
       and audio="audio_row demo_jobId (tts_result_of demo_tts_json)"
       and rendered=demo_render_json
       and video="video_row demo_jobId (render_result_of demo_render_json)"
       and error="Error (js ''quotaExceeded'')",
     OF F(1) F(2) pub f F(3) F(1) s F(4) F(1) F(10) F(5) F(1) F(11) demo_mp4 F(6) F(1) up uf]
  show "status_writes (snd (processJob env_publish_fails demo_jobId)) =
     [Running, Running, Running, Running, Completed, Failed]" by (rule R(1))
  show "progress_writes (snd (processJob env_publish_fails demo_jobId)) = [10, 25, 50, 75, 100]"
    by (rule R(2))
  show "final_status (snd (processJob env_publish_fails demo_jobId)) = Some Failed"
    by (rule R(3))
  show "final_error (snd (processJob env_publish_fails demo_jobId)) = Some (js ''quotaExceeded'')"
    using R(4) by simp
  show "artifacts (snd (processJob env_publish_fails demo_jobId)) =
     [CreateArticle (article_row demo_jobId demo_gnews_article),
      CreateSummary (summary_row demo_jobId (demo_job True) (js ''Rivers rose.'')),
      CreateAudio (audio_row demo_jobId (tts_result_of demo_tts_json)),
      CreateVideo (video_row demo_jobId (render_result_of demo_render_json))]"
    by (rule R(5))
qed

text \<open>
  Claim C1, at a run that contradicts it. The job has auto-publish on, all four artifacts
  are persisted and the status \<open>completed\<close> is written; the upload then rejects with
  "quotaExceeded". The call sits inside the \<open>try\<close> block, so the \<open>catch\<close> block
  writes \<open>failed\<close> over \<open>completed\<close>: the final status is \<open>failed\<close>.
\<close>

theorem publish_failure_overwrites_completed:
  "job_autoPublish (demo_job True)
   \<and> artifacts (snd (processJob env_publish_fails demo_jobId)) =
       [CreateArticle (article_row demo_jobId demo_gnews_article),
        CreateSummary (summary_row demo_jobId (demo_job True) (js ''Rivers rose.'')),
        CreateAudio (audio_row demo_jobId (tts_result_of demo_tts_json)),
        CreateVideo (video_row demo_jobId (render_result_of demo_render_json))]
   \<and> Completed \<in> set (status_writes (snd (processJob env_publish_fails demo_jobId)))
   \<and> final_status (snd (processJob env_publish_fails demo_jobId)) = Some Failed
   \<and> final_error (snd (processJob env_publish_fails demo_jobId)) = Some (js ''quotaExceeded'')"
  by (simp add: publish_fails_run demo_job_def)

section \<open>The health-check cache\<close>

text \<open>A run of one call alone is the uninterrupted call.\<close>

lemma health_run_single_call:
  "health_run apiKey cache [Call i now, Settle i response] =
     (case checkHealth apiKey cache now response of
        (b, cache', n) \<Rightarrow>
          \<lparr>hr_cache = cache', hr_inflight = [], hr_returned = [(i, b)], hr_remote_calls = n\<rparr>)"
  by (simp add: health_run_def health_start_def checkHealth_def
      split: option.splits prod.splits)

text \<open>
  Claim C8, as amended. With an API key configured, take a first call that makes its
  remote check, and a second call made after that check has settled (the calls do not
  overlap) and less than 60 seconds after the first by \<open>Date.now()\<close>. When the first
  check ended with a response, or with an error other than a timeout met while the cached
  value is true, the second call makes no remote call and returns the boolean the first
  call returned: one remote call in total.
\<close>

theorem checkHealth_cached_after_completed_check:
  assumes "apiKey \<noteq> []"
    and "healthCheckCacheDuration \<le> now1 - lastHealthCheckTime cache"
    and "\<not> (is_client_timeout response1 \<and> lastHealthCheck cache)"
    and "now2 - now1 < 60000"
  shows "hr_returned (health_run apiKey cache [Call 1 now1, Settle 1 response1, Call 2 now2]) =
           [(1, fst (checkHealth apiKey cache now1 response1)),
            (2, fst (checkHealth apiKey cache now1 response1))]
       \<and> hr_remote_calls
           (health_run apiKey cache [Call 1 now1, Settle 1 response1, Call 2 now2]) = 1
       \<and> hr_inflight
           (health_run apiKey cache [Call 1 now1, Settle 1 response1, Call 2 now2]) = []"
  using assms
  by (cases response1)
     (auto simp: health_run_def health_start_def checkHealth_def checkHealth_begin_def
        checkHealth_settle_def healthCheckCacheDuration_def is_client_timeout_def)

theorem checkHealth_cached_after_completed_check_witness:
  "demo_apiKey \<noteq> []
   \<and> healthCheckCacheDuration \<le> 1700000000000 - lastHealthCheckTime initial_health_cache
   \<and> (1700000059999::int) - 1700000000000 < 60000
   \<and> hr_returned (health_run demo_apiKey initial_health_cache
        [Call 1 1700000000000, Settle 1 (HttpError 503 (js ''Service Unavailable'')),
         Call 2 1700000059999]) = [(1, False), (2, False)]
   \<and> hr_remote_calls (health_run demo_apiKey initial_health_cache
        [Call 1 1700000000000, Settle 1 (HttpError 503 (js ''Service Unavailable'')),
         Call 2 1700000059999]) = 1"
proof -
  have k: "demo_apiKey \<noteq> []" by (simp add: demo_apiKey_def js_def)
  have a: "healthCheckCacheDuration \<le> 1700000000000 - lastHealthCheckTime initial_health_cache"
    by (simp add: healthCheckCacheDuration_def initial_health_cache_def)
  have b: "\<not> (is_client_timeout (HttpError 503 (js ''Service Unavailable'') :: unit http_outcome)
             \<and> lastHealthCheck initial_health_cache)"
    by (simp add: is_client_timeout_def)
  have c: "(1700000059999::int) - 1700000000000 < 60000" by simp
  have v: "fst (checkHealth demo_apiKey initial_health_cache 1700000000000
                 (HttpError 503 (js ''Service Unavailable''))) = False"
    using k by (simp add: checkHealth_def checkHealth_begin_def checkHealth_settle_def
        healthCheckCacheDuration_def initial_health_cache_def)
  from checkHealth_cached_after_completed_check [OF k a b c] k a c
  show ?thesis unfolding v by blast
qed

text \<open>A second call made while the request of the first is in flight finds the cache as the
  first call found it, and issues a request of its own.\<close>

lemma checkHealth_overlap_two_remote_calls:
  assumes "apiKey \<noteq> []"
    and "healthCheckCacheDuration \<le> now1 - lastHealthCheckTime cache"
    and "now1 \<le> now2"
  shows "hr_remote_calls (health_run apiKey cache [Call 1 now1, Call 2 now2]) = 2"
  using assms
  by (simp add: health_run_def health_start_def checkHealth_begin_def
      healthCheckCacheDuration_def)

text \<open>
  Claim C8 as stated fails, in two ways. First run: the first call's remote check times
  out (after its 15 seconds) while the cached value is true, so it returns true without
  refreshing the cache time; a second call 16 seconds after the first makes a remote
  check of its own, finds the service down and returns false. Second run: the second call
  is made 5 ms after the first, while the first request is in flight; both calls make a
  remote check, the first gets an \<open>ok\<close> response and the second a 503. In both runs there
  are two remote calls and two different booleans.
\<close>

theorem checkHealth_second_remote_call:
  "hr_returned (health_run demo_apiKey initial_health_cache
     [Call 1 1700000000000, Settle 1 (FetchRejects AbortError),
      Call 2 1700000016000, Settle 2 (HttpError 503 (js ''Service Unavailable''))])
     = [(1, True), (2, False)]
   \<and> hr_remote_calls (health_run demo_apiKey initial_health_cache
     [Call 1 1700000000000, Settle 1 (FetchRejects AbortError),
      Call 2 1700000016000, Settle 2 (HttpError 503 (js ''Service Unavailable''))]) = 2
   \<and> hr_returned (health_run demo_apiKey initial_health_cache
     [Call 1 1700000000000, Call 2 1700000000005,
      Settle 1 (HttpOk ()), Settle 2 (HttpError 503 (js ''Service Unavailable''))])
     = [(1, True), (2, False)]
   \<and> hr_remote_calls (health_run demo_apiKey initial_health_cache
     [Call 1 1700000000000, Call 2 1700000000005,
      Settle 1 (HttpOk ()), Settle 2 (HttpError 503 (js ''Service Unavailable''))]) = 2"
proof -
  have k: "demo_apiKey \<noteq> []" by (simp add: demo_apiKey_def js_def)
  have ab: "is_AbortError AbortError" by (simp add: is_AbortError_def AbortError_def)
  show ?thesis using k ab
    by (simp add: health_run_def health_start_def checkHealth_begin_def checkHealth_settle_def
        healthCheckCacheDuration_def initial_health_cache_def)
qed

section \<open>The word count of a summary\<close>

lemma split_from_length: "1 \<le> length (split_from cur s)"
  by (induction cur s rule: split_from.induct) auto

lemma split_ws_length: "1 \<le> length (split_ws s)"
  using split_from_length [of "[]" s] by (simp add: split_ws_def)

lemma split_ws_empty: "split_ws [] = [[]]"
  by (simp add: split_ws_def)

lemma split_ws_all_whitespace:
  assumes "t \<noteq> []" and "list_all is_js_whitespace t"
  shows "split_ws t = [[], []]"
proof (cases t)
  case Nil
  with assms(1) show ?thesis by simp
next
  case (Cons c cs)
  with assms(2) have c: "is_js_whitespace c" and cs: "\<forall>x \<in> set cs. is_js_whitespace x"
    by (simp_all add: list_all_iff)
  from cs have d: "dropWhile is_js_whitespace cs = []" by simp
  show ?thesis unfolding split_ws_def Cons using c by (simp add: d)
qed

lemma io_bind_events:
  assumes "\<forall>ev \<in> set (snd m). P ev"
    and "\<And>x. fst m = Inr x \<Longrightarrow> \<forall>ev \<in> set (snd (f x)). P ev"
  shows "\<forall>ev \<in> set (snd (io_bind m f)). P ev"
  using assms by (cases m) (auto simp: io_bind_def split: sum.splits prod.splits)

lemma summarize_wordCount_consistent:
  "\<forall>ev \<in> set (snd (summarize apiKey remote)). wordCount_consistent ev"
proof
  fix ev assume "ev \<in> set (snd (summarize apiKey remote))"
  then have "is_summarizer_event ev" by (rule summarize_events)
  then show "wordCount_consistent ev" by (cases ev) simp_all
qed

lemma try_wordCount_consistent:
  "\<forall>ev \<in> set (snd (processJob_try E jobId)). wordCount_consistent ev"
  unfolding processJob_try_def
  apply (rule io_bind_events, simp add: updateJobStatus_def emit_def throw_def split: option.splits)
  apply (rule io_bind_events, simp add: getJobById_def)
  apply (simp add: throw_def split: option.splits, intro allI impI)
  apply (rule io_bind_events, simp add: fetchArticles_def)
  apply (simp add: throw_def split: list.splits, intro allI impI)
  apply (rule io_bind_events, simp add: createArticle_def throw_def split: sum.splits)
  apply (rule io_bind_events, simp add: updateJobStatus_def emit_def throw_def split: option.splits)
  apply (rule io_bind_events, rule summarize_wordCount_consistent)
  apply (rule io_bind_events, simp add: createSummary_def throw_def summary_row_def split: sum.splits)
  apply (rule io_bind_events, simp add: updateJobStatus_def emit_def throw_def split: option.splits)
  apply (rule io_bind_events, simp add: generateTTS_def io_bind_def emit_def throw_def ret_def split: http_outcome.splits)
  apply (rule io_bind_events, simp add: createAudio_def throw_def split: sum.splits)
  apply (rule io_bind_events, simp add: updateJobStatus_def emit_def throw_def split: option.splits)
  apply (rule io_bind_events, simp add: renderVideo_def io_bind_def emit_def throw_def ret_def split: http_outcome.splits)
  apply (rule io_bind_events, simp add: createVideo_def throw_def split: sum.splits)
  apply (rule io_bind_events, simp add: updateJobStatus_def emit_def throw_def split: option.splits)
  apply (simp add: publishVideo_def uploadVideo_def io_bind_def ret_def Let_def split: sum.splits)
  done

lemma processJob_wordCount_consistent:
  "ev \<in> set (snd (processJob E jobId)) \<Longrightarrow> wordCount_consistent ev"
  using try_wordCount_consistent [of E jobId]
  by (auto simp: processJob_def updateJobStatus_def emit_def throw_def
      split: prod.splits sum.splits option.splits)

text \<open>
  Claim C10. Every Summary the run persists carries as word count the length of
  \<open>summaryText.split(/\s+/)\<close>, and this length is at least 1 for every text: the empty
  text is recorded with word count 1, a non-empty text of whitespace only with word
  count 2, never 0.
\<close>

theorem summary_wordCount_is_split_length:
  "(CreateSummary row \<in> set (snd (processJob E jobId)) \<longrightarrow>
      s_wordCount row = length (split_ws (s_text row)) \<and> 1 \<le> s_wordCount row)
   \<and> 1 \<le> length (split_ws t)
   \<and> length (split_ws []) = 1
   \<and> (t \<noteq> [] \<and> list_all is_js_whitespace t \<longrightarrow> length (split_ws t) = 2)"
proof -
  have a: "s_wordCount row = length (split_ws (s_text row)) \<and> 1 \<le> s_wordCount row"
    if "CreateSummary row \<in> set (snd (processJob E jobId))"
    using processJob_wordCount_consistent [OF that] split_ws_length [of "s_text row"] by simp
  have b: "length (split_ws t) = 2" if "t \<noteq> []" "list_all is_js_whitespace t"
    using split_ws_all_whitespace [OF that] by simp
  have c: "length (split_ws []) = 1" by (simp add: split_ws_empty)
  from a b c split_ws_length [of t] show ?thesis by blast
qed

lemma env_ok_summary_written:
  "CreateSummary (summary_row demo_jobId (demo_job False) (js ''Rivers rose.''))
     \<in> set (snd (processJob (env_ok False) demo_jobId))"
proof -
  note F = env_ok_fields [where ap=False]
  have f: "gnews_fetchArticles (env_ok False) (job_topic (demo_job False))
             (job_language (demo_job False)) = Inr (demo_gnews_article # [])"
    by (simp add: F)
  have s: "fst (summarize (hf_apiKey (env_ok False))
             (hf_remote (env_ok False)
                (summary_input (article_row demo_jobId demo_gnews_article))
                (job_targetLength (demo_job False)))) = Inr (js ''Rivers rose.'')"
    by (simp add: F summarize_remote_ok)
  from processJob_try_pipeline
    [where E="env_ok False" and jobId=demo_jobId and job="demo_job False"
       and first=demo_gnews_article and rest="[]"
       and article="article_row demo_jobId demo_gnews_article"
       and summaryText="js ''Rivers rose.''"
       and summary="summary_row demo_jobId (demo_job False) (js ''Rivers rose.'')"
       and tts=demo_tts_json
       and audio="audio_row demo_jobId (tts_result_of demo_tts_json)",
     OF F(1) F(2) f F(3) F(1) s F(4) F(1) F(10) F(5) F(1)]
  have "CreateSummary (summary_row demo_jobId (demo_job False) (js ''Rivers rose.''))
     \<in> set (snd (processJob_try (env_ok False) demo_jobId))"
    by (auto simp: case_prod_beta)
  then show ?thesis
    by (auto simp: processJob_def updateJobStatus_def emit_def F split: prod.splits sum.splits)
qed

theorem summary_wordCount_is_split_length_witness:
  "CreateSummary (summary_row demo_jobId (demo_job False) (js ''Rivers rose.''))
     \<in> set (snd (processJob (env_ok False) demo_jobId))
   \<and> s_wordCount (summary_row demo_jobId (demo_job False) (js ''Rivers rose.'')) = 2
   \<and> js ''   '' \<noteq> [] \<and> list_all is_js_whitespace (js ''   '')
   \<and> length (split_ws (js ''   '')) = 2
   \<and> length (split_ws []) = 1"
proof -
  note T = summary_wordCount_is_split_length
    [of "summary_row demo_jobId (demo_job False) (js ''Rivers rose.'')" "env_ok False"
        demo_jobId "js ''   ''"]
  have w: "list_all is_js_whitespace (js ''   '')" "js ''   '' \<noteq> []"
    by (simp_all add: js_def is_js_whitespace_def)
  have v: "s_wordCount (summary_row demo_jobId (demo_job False) (js ''Rivers rose.'')) = 2"
    by (simp add: summary_row_def split_ws_def js_def is_js_whitespace_def)
  from T env_ok_summary_written w v show ?thesis by blast
qed

section \<open>The order of status and progress writes\<close>

text \<open>
  On every run, whatever the collaborators do: the status writes with their progress values
  are a prefix of \<open>running/10, running/25, running/50, running/75, completed/100\<close>,
  followed by at most one write of \<open>failed\<close> without a progress value. So the progress
  values written are increasing and among 10, 25, 50, 75, 100.
\<close>

lemma update_writes_append: "update_writes (xs @ ys) = update_writes xs @ update_writes ys"
  by (simp add: update_writes_def map_filter_append)

lemma status_writes_update_writes: "status_writes tr = map fst (update_writes tr)"
proof (induction tr)
  case Nil
  show ?case by (simp add: status_writes_def update_writes_def)
next
  case (Cons ev tr)
  then show ?case
    by (cases ev) (simp_all add: status_writes_def update_writes_def)
qed

lemma progress_writes_update_writes:
  "progress_writes tr = List.map_filter snd (update_writes tr)"
proof (induction tr)
  case Nil
  show ?case by (simp add: progress_writes_def update_writes_def)
next
  case (Cons ev tr)
  then show ?case
    by (cases ev) (simp_all add: progress_writes_def update_writes_def split: option.splits)
qed

lemma io_bind_writes_silent:
  assumes "update_writes (snd m) = []"
    and "\<And>x. fst m = Inr x \<Longrightarrow> prefix (update_writes (snd (f x))) L"
  shows "prefix (update_writes (snd (io_bind m f))) L"
  using assms
  by (cases m) (auto simp: io_bind_def update_writes_append split: sum.splits prod.splits)

lemma io_bind_writes_update:
  assumes "\<And>x. prefix (update_writes (snd (f x))) L"
  shows "prefix (update_writes (snd (io_bind (updateJobStatus E jobId st err progress) f)))
           ((st, progress) # L)"
  using assms [of "()"]
  by (cases "st_updateJobStatus E jobId st err progress")
     (auto simp: io_bind_def updateJobStatus_def emit_def throw_def update_writes_def
        split: prod.splits)

lemma update_writes_simps:
  "update_writes [] = []"
  "update_writes (ev # tr) =
     (case update_write ev of None \<Rightarrow> update_writes tr | Some w \<Rightarrow> w # update_writes tr)"
  by (simp_all add: update_writes_def split: option.splits)

lemma summarizer_events_no_update_writes:
  "\<forall>ev \<in> set tr. is_summarizer_event ev \<Longrightarrow> update_writes tr = []"
proof (induction tr)
  case Nil
  show ?case by (simp add: update_writes_simps)
next
  case (Cons ev tr)
  then show ?case by (cases ev) (simp_all add: update_writes_simps)
qed

lemma summarize_no_update_writes: "update_writes (snd (summarize apiKey remote)) = []"
  by (rule summarizer_events_no_update_writes) (use summarize_events in blast)

lemma try_update_writes:
  "prefix (update_writes (snd (processJob_try E jobId))) pipeline_writes"
  unfolding processJob_try_def pipeline_writes_def
  apply (rule io_bind_writes_update)
  apply (rule io_bind_writes_silent, simp add: getJobById_def update_writes_simps)
  apply (simp add: throw_def update_writes_simps split: option.splits, intro allI impI)
  apply (rule io_bind_writes_silent, simp add: fetchArticles_def update_writes_simps)
  apply (simp add: throw_def update_writes_simps split: list.splits, intro allI impI)
  apply (rule io_bind_writes_silent, simp add: createArticle_def throw_def update_writes_simps split: sum.splits)
  apply (rule io_bind_writes_update)
  apply (rule io_bind_writes_silent, rule summarize_no_update_writes)
  apply (rule io_bind_writes_silent, simp add: createSummary_def throw_def update_writes_simps split: sum.splits)
  apply (rule io_bind_writes_update)
  apply (rule io_bind_writes_silent, simp add: generateTTS_def io_bind_def emit_def throw_def ret_def update_writes_simps split: http_outcome.splits)
  apply (rule io_bind_writes_silent, simp add: createAudio_def throw_def update_writes_simps split: sum.splits)
  apply (rule io_bind_writes_update)
  apply (rule io_bind_writes_silent, simp add: renderVideo_def io_bind_def emit_def throw_def ret_def update_writes_simps split: http_outcome.splits)
  apply (rule io_bind_writes_silent, simp add: createVideo_def throw_def update_writes_simps split: sum.splits)
  apply (rule io_bind_writes_update)
  apply (simp add: publishVideo_def uploadVideo_def io_bind_def ret_def Let_def update_writes_simps split: sum.splits)
  done


lemma processJob_update_writes:
  "\<exists>ws. prefix ws pipeline_writes
     \<and> (update_writes (snd (processJob E jobId)) = ws
        \<or> update_writes (snd (processJob E jobId)) = ws @ [(Failed, None)])"
proof (cases "processJob_try E jobId")
  case (Pair r tr)
  have pre: "prefix (update_writes tr) pipeline_writes"
    using try_update_writes [of E jobId] Pair by simp
  show ?thesis
  proof (cases r)
    case (Inr u)
    with Pair have "processJob E jobId = (Inr u, tr)" by (simp add: processJob_def)
    with pre show ?thesis by auto
  next
    case (Inl error)
    show ?thesis
    proof (cases "st_updateJobStatus E jobId Failed (Some (error_message error)) None")
      case None
      with Pair Inl have "snd (processJob E jobId) =
          tr @ [UpdateJobStatus jobId Failed (Some (error_message error)) None]"
        by (simp add: processJob_def updateJobStatus_def emit_def)
      then have "update_writes (snd (processJob E jobId)) = update_writes tr @ [(Failed, None)]"
        by (simp add: update_writes_append update_writes_simps)
      with pre show ?thesis by blast
    next
      case (Some e)
      with Pair Inl have "snd (processJob E jobId) = tr"
        by (simp add: processJob_def updateJobStatus_def throw_def)
      with pre show ?thesis by auto
    qed
  qed
qed

lemma prefix_map_filter:
  "prefix xs ys \<Longrightarrow> prefix (List.map_filter f xs) (List.map_filter f ys)"
  by (auto simp: prefix_def map_filter_append)

lemma processJob_progress_writes:
  "prefix (progress_writes (snd (processJob E jobId))) [10, 25, 50, 75, 100]"
proof -
  from processJob_update_writes [of E jobId] obtain ws where
    pre: "prefix ws pipeline_writes" and
    w: "update_writes (snd (processJob E jobId)) = ws
        \<or> update_writes (snd (processJob E jobId)) = ws @ [(Failed, None)]"
    by blast
  from w have "progress_writes (snd (processJob E jobId)) = List.map_filter snd ws"
    by (auto simp: progress_writes_update_writes map_filter_append)
  moreover have "List.map_filter snd pipeline_writes = [10, 25, 50, 75, 100]"
    by (simp add: pipeline_writes_def)
  ultimately show ?thesis using prefix_map_filter [OF pre, of snd] by simp
qed

lemma processJob_progress_sorted_in_range:
  "sorted (progress_writes (snd (processJob E jobId)))
   \<and> set (progress_writes (snd (processJob E jobId))) \<subseteq> {0, 10, 25, 50, 75, 100}"
proof -
  from processJob_progress_writes [of E jobId] obtain zs where
    eq: "[10, 25, 50, 75, 100] = progress_writes (snd (processJob E jobId)) @ zs"
    by (auto simp: prefix_def)
  have "sorted [10, 25, 50, 75, 100 :: nat]" by simp
  then have s: "sorted (progress_writes (snd (processJob E jobId)) @ zs)"
    unfolding eq .
  have "set [10, 25, 50, 75, 100 :: nat] \<subseteq> {0, 10, 25, 50, 75, 100}" by simp
  then have m: "set (progress_writes (snd (processJob E jobId)) @ zs) \<subseteq> {0, 10, 25, 50, 75, 100}"
    unfolding eq .
  from s m show ?thesis by (simp add: sorted_append)
qed

lemma processJob_status_writes:
  "\<exists>ws. prefix ws [Running, Running, Running, Running, Completed]
     \<and> (status_writes (snd (processJob E jobId)) = ws
        \<or> status_writes (snd (processJob E jobId)) = ws @ [Failed])"
proof -
  from processJob_update_writes [of E jobId] obtain ws where
    pre: "prefix ws pipeline_writes" and
    w: "update_writes (snd (processJob E jobId)) = ws
        \<or> update_writes (snd (processJob E jobId)) = ws @ [(Failed, None)]"
    by blast
  from pre have "prefix (map fst ws) (map fst pipeline_writes)" by (rule map_mono_prefix)
  then have "prefix (map fst ws) [Running, Running, Running, Running, Completed]"
    by (simp add: pipeline_writes_def)
  moreover from w have "status_writes (snd (processJob E jobId)) = map fst ws
        \<or> status_writes (snd (processJob E jobId)) = map fst ws @ [Failed]"
    by (auto simp: status_writes_update_writes)
  ultimately show ?thesis by blast
qed

text \<open>
  Claim C3, at a run that contradicts it: the run of \<open>env_publish_fails\<close>, in which all
  stages succeed and the upload rejects. The progress values written are 10, 25, 50, 75,
  100, but the statuses written are four times \<open>running\<close>, then \<open>completed\<close>, then
  \<open>failed\<close>: a transition out of a terminal status.
\<close>

theorem publish_failure_status_sequence:
  "status_writes (snd (processJob env_publish_fails demo_jobId)) =
     [Running, Running, Running, Running, Completed, Failed]
   \<and> progress_writes (snd (processJob env_publish_fails demo_jobId)) = [10, 25, 50, 75, 100]"
  by (simp add: publish_fails_run)

end
